theory Spec2Isabelle
  imports Complex_Main
begin

section \<open>The AI trip planner: the request handler of \<open>ai-trip-planner/index.ts\<close>\<close>

text \<open>
  The handler validates a trip request, checks who calls and who owns the trip, asks a
  completion gateway for an itinerary, repairs the gateway's text into JSON and writes the
  result to the trip. This theory embeds the functions of the handler as HOL functions and
  proves the properties the specification states about them.
\<close>

subsection \<open>Strings\<close>

text \<open>
  A JavaScript string is a sequence of UTF-16 code units, and \<open>length\<close>, \<open>slice\<close>, \<open>indexOf\<close>
  and a regular expression without the \<open>u\<close> flag all count code units. A string is therefore a
  list of code units, each a natural number (below 65536 in every string the program can
  hold). \<open>js\<close> turns a literal of the source into such a list.
\<close>

type_synonym jsstring = "nat list"

definition js :: "string \<Rightarrow> jsstring" where
  "js s = map of_char s"

text \<open>
  The class \<open>\s\<close> of a regular expression, which is also what \<open>trim\<close> strips: the white space
  and line terminator code points of ECMAScript.
\<close>

definition isSpace :: "nat \<Rightarrow> bool" where
  "isSpace c \<longleftrightarrow>
     c \<in> {0x09, 0x0A, 0x0B, 0x0C, 0x0D, 0x20, 0xA0, 0x1680, 0x2028, 0x2029, 0x202F, 0x205F,
          0x3000, 0xFEFF} \<or> (0x2000 \<le> c \<and> c \<le> 0x200A)"

text \<open>The class \<open>\d\<close>: the ten ASCII digits.\<close>

definition isDigit :: "nat \<Rightarrow> bool" where
  "isDigit c \<longleftrightarrow> 0x30 \<le> c \<and> c \<le> 0x39"

text \<open>\<open>str.replace(/[...]/g, '')\<close> for a class of single code units: every match is dropped.\<close>

fun replaceClass :: "(nat \<Rightarrow> bool) \<Rightarrow> jsstring \<Rightarrow> jsstring" where
  "replaceClass cls [] = []"
| "replaceClass cls (c # cs) = (if cls c then replaceClass cls cs else c # replaceClass cls cs)"

subsection \<open>\<open>sanitizeString\<close>\<close>

text \<open>
  \<^verbatim>\<open>
  function sanitizeString(str: string, maxLength: number): string {
    if (typeof str !== 'string') return '';
    return str.slice(0, maxLength).replace(/[<>{}]/g, '');
  }
  \<close>
  Every caller passes a string (the validator filters on \<open>typeof p === 'string'\<close> and applies
  \<open>String\<close> first), so the first line never fires and the model takes a string. The length
  bound is a natural number: the callers pass the constants 200 and 50, and \<open>slice(0, n)\<close> keeps
  the first \<open>n\<close> code units of the string, all of them when it is shorter.
\<close>

definition dangerous :: "nat \<Rightarrow> bool" where
  "dangerous c \<longleftrightarrow> c \<in> set (js ''<>{}'')"

definition sanitizeString :: "jsstring \<Rightarrow> nat \<Rightarrow> jsstring" where
  "sanitizeString str maxLength = replaceClass dangerous (take maxLength str)"

subsection \<open>Properties of \<open>sanitizeString\<close>\<close>

lemma replaceClass_filter: "replaceClass cls cs = filter (\<lambda>c. \<not> cls c) cs"
  by (induction cs) auto

lemma length_replaceClass_le: "length (replaceClass cls cs) \<le> length cs"
  by (simp add: replaceClass_filter)

lemma dangerous_iff: "dangerous c \<longleftrightarrow> c = 60 \<or> c = 62 \<or> c = 123 \<or> c = 125"
  by (auto simp: dangerous_def js_def)

text \<open>
  Claim C8. Sanitizing a sanitized string again, with the same bound, changes nothing; and
  the result is the first \<open>n\<close> code units of the input with exactly the code units of
  \<open><\<close>, \<open>>\<close>, \<open>{\<close> and \<open>}\<close> (60, 62, 123, 125) taken out: every other code unit stays, in its
  place and as often as it occurred.
\<close>

theorem sanitizeString_idempotent_exact:
  "sanitizeString (sanitizeString s n) n = sanitizeString s n \<and>
   sanitizeString s n = filter (\<lambda>c. c \<notin> {60, 62, 123, 125}) (take n s)"
proof
  have len: "length (sanitizeString s n) \<le> n"
    unfolding sanitizeString_def
    by (rule order_trans [OF length_replaceClass_le]) simp
  show "sanitizeString (sanitizeString s n) n = sanitizeString s n"
    using len by (simp add: sanitizeString_def replaceClass_filter)
  show "sanitizeString s n = filter (\<lambda>c. c \<notin> {60, 62, 123, 125}) (take n s)"
    by (simp add: sanitizeString_def replaceClass_filter dangerous_iff)
qed

subsection \<open>Numbers and the JavaScript engine\<close>

text \<open>
  A number of the program is an IEEE-754 double: a finite value, which is a rational number,
  an infinity or NaN. The model keeps the finite value exactly; \<open>-0\<close> and \<open>0\<close> are one value,
  which no comparison of the program tells apart.

  What the engine computes by rounding to a double, and how it words a message, is not
  defined here. These operations are parameters of the model, collected in \<open>runtime\<close>, and
  every theorem holds for every runtime:
  \<^item> \<open>stringToNumber\<close>: \<open>Number(s)\<close> for a string (\<open>StringToNumber\<close> of ECMAScript);
  \<^item> \<open>numberToString\<close>: \<open>String(n)\<close> for a number (\<open>Number::toString\<close>);
  \<^item> \<open>multiply\<close>: the product of two doubles;
  \<^item> \<open>syntaxErrorMessage\<close>: the message of the \<open>SyntaxError\<close> that \<open>JSON.parse\<close> throws on a
    text;
  \<^item> \<open>localToUTC\<close>: the time value of a local time, which follows the time zone of the
    process and its rules (\<open>UTC(t)\<close> of ECMAScript).
  Where the result needs no rounding (a string of digits, and an integer, below \<open>2^53\<close>) the
  model computes it and does not ask the runtime.
\<close>

datatype jsnum = Finite rat | NaN | PosInf | NegInf

record runtime =
  stringToNumber :: "jsstring \<Rightarrow> jsnum"
  numberToString :: "jsnum \<Rightarrow> jsstring"
  multiply :: "jsnum \<Rightarrow> jsnum \<Rightarrow> jsnum"
  syntaxErrorMessage :: "jsstring \<Rightarrow> jsstring"
  localToUTC :: "int \<Rightarrow> int"

text \<open>\<open>a < b\<close> on numbers: false as soon as one side is NaN.\<close>

fun lt :: "jsnum \<Rightarrow> jsnum \<Rightarrow> bool" where
  "lt NaN _ = False"
| "lt _ NaN = False"
| "lt (Finite a) (Finite b) = (a < b)"
| "lt (Finite a) PosInf = True"
| "lt (Finite a) NegInf = False"
| "lt PosInf _ = False"
| "lt NegInf NegInf = False"
| "lt NegInf _ = True"

fun isNaN :: "jsnum \<Rightarrow> bool" where
  "isNaN NaN = True"
| "isNaN _ = False"

fun isInteger :: "jsnum \<Rightarrow> bool" where
  "isInteger (Finite q) = (of_int \<lfloor>q\<rfloor> = q)"
| "isInteger _ = False"

text \<open>The decimal digits of a natural number, and the value of a string of digits.\<close>

fun decimal :: "nat \<Rightarrow> jsstring" where
  "decimal n = (if n < 10 then [48 + n] else decimal (n div 10) @ [48 + n mod 10])"

declare decimal.simps [simp del]

definition digitsValue :: "jsstring \<Rightarrow> nat" where
  "digitsValue ds = foldl (\<lambda>acc c. 10 * acc + (c - 48)) 0 ds"

definition strToNum :: "runtime \<Rightarrow> jsstring \<Rightarrow> jsnum" where
  "strToNum rt s =
     (if s \<noteq> [] \<and> list_all isDigit s \<and> digitsValue s < 2 ^ 53
      then Finite (of_nat (digitsValue s)) else stringToNumber rt s)"

definition numToStr :: "runtime \<Rightarrow> jsnum \<Rightarrow> jsstring" where
  "numToStr rt n =
     (case n of
        Finite q \<Rightarrow>
          if of_int \<lfloor>q\<rfloor> = q \<and> \<bar>q\<bar> < 2 ^ 53
          then (if q < 0 then js ''-'' else []) @ decimal (nat \<bar>\<lfloor>q\<rfloor>\<bar>)
          else numberToString rt n
      | _ \<Rightarrow> numberToString rt n)"

subsection \<open>Decoded JSON values\<close>

text \<open>
  What \<open>req.json()\<close> and \<open>JSON.parse\<close> return: \<open>null\<close>, a boolean, a number, a string, an array
  or an object, the object as the list of its keys and values. A missing property reads as
  \<open>undefined\<close>, which is \<open>None\<close> here.
\<close>

datatype json =
    JNull
  | JBool bool
  | JNum jsnum
  | JStr jsstring
  | JArr "json list"
  | JObj "(jsstring \<times> json) list"

text \<open>Truthiness, as \<open>!x\<close> and \<open>x || y\<close> test it.\<close>

fun truthy :: "json \<Rightarrow> bool" where
  "truthy JNull = False"
| "truthy (JBool b) = b"
| "truthy (JNum n) = (\<not> isNaN n \<and> n \<noteq> Finite 0)"
| "truthy (JStr s) = (s \<noteq> [])"
| "truthy (JArr _) = True"
| "truthy (JObj _) = True"

fun truthyO :: "json option \<Rightarrow> bool" where
  "truthyO None = False"
| "truthyO (Some v) = truthy v"

text \<open>
  \<open>x.name\<close> on a value that is neither \<open>null\<close> nor \<open>undefined\<close>, for the property names the
  program reads (\<open>tripId\<close>, \<open>error\<close>, \<open>choices\<close>, ...): an object has the property or not, and
  no array, string, number or boolean has a property of one of these names.
\<close>

fun getProp :: "json \<Rightarrow> jsstring \<Rightarrow> json option" where
  "getProp (JObj kvs) k = map_of kvs k"
| "getProp _ k = None"

fun joinComma :: "jsstring list \<Rightarrow> jsstring" where
  "joinComma [] = []"
| "joinComma [s] = s"
| "joinComma (s # t # ss) = s @ js '','' @ joinComma (t # ss)"

text \<open>
  \<open>String(x)\<close>: an array is its elements joined by commas, a \<open>null\<close> element being the empty
  string; an object is \<open>[object Object]\<close>.
\<close>

fun toStr :: "runtime \<Rightarrow> json \<Rightarrow> jsstring" where
  "toStr rt JNull = js ''null''"
| "toStr rt (JBool b) = (if b then js ''true'' else js ''false'')"
| "toStr rt (JNum n) = numToStr rt n"
| "toStr rt (JStr s) = s"
| "toStr rt (JArr xs) = joinComma (map (\<lambda>x. if x = JNull then [] else toStr rt x) xs)"
| "toStr rt (JObj kvs) = js ''[object Object]''"

fun toStrO :: "runtime \<Rightarrow> json option \<Rightarrow> jsstring" where
  "toStrO rt None = js ''undefined''"
| "toStrO rt (Some v) = toStr rt v"

text \<open>\<open>Number(x)\<close>: an array or an object is first turned into its string.\<close>

fun toNum :: "runtime \<Rightarrow> json \<Rightarrow> jsnum" where
  "toNum rt JNull = Finite 0"
| "toNum rt (JBool b) = (if b then Finite 1 else Finite 0)"
| "toNum rt (JNum n) = n"
| "toNum rt (JStr s) = strToNum rt s"
| "toNum rt (JArr xs) = strToNum rt (toStr rt (JArr xs))"
| "toNum rt (JObj kvs) = strToNum rt (toStr rt (JObj kvs))"

fun isString :: "json \<Rightarrow> bool" where
  "isString (JStr _) = True"
| "isString _ = False"

fun isStringO :: "json option \<Rightarrow> bool" where
  "isStringO None = False"
| "isStringO (Some v) = isString v"

text \<open>\<open>typeof x === 'object'\<close> for a truthy value: an object or an array.\<close>

fun isObjectType :: "json \<Rightarrow> bool" where
  "isObjectType (JArr _) = True"
| "isObjectType (JObj _) = True"
| "isObjectType JNull = True"
| "isObjectType _ = False"

text \<open>Thrown values: each is an \<open>Error\<close> or one of its subclasses, and carries a message.\<close>

datatype jserror = Error jsstring | SyntaxError jsstring | TypeError jsstring

fun message :: "jserror \<Rightarrow> jsstring" where
  "message (Error m) = m"
| "message (SyntaxError m) = m"
| "message (TypeError m) = m"

definition trim :: "jsstring \<Rightarrow> jsstring" where
  "trim s = rev (dropWhile isSpace (rev (dropWhile isSpace s)))"

subsection \<open>The validator's helpers\<close>

text \<open>
  \<^verbatim>\<open>
  function isValidUUID(str: string): boolean {
    const uuidRegex = /^[0-9a-f]{8}-[0-9a-f]{4}-[0-9a-f]{4}-[0-9a-f]{4}-[0-9a-f]{12}$/i;
    return typeof str === 'string' && uuidRegex.test(str);
  }
  \<close>
  The expression is anchored at both ends, so it fixes the length, 36, and every position.
\<close>

definition isHex :: "nat \<Rightarrow> bool" where
  "isHex c \<longleftrightarrow> isDigit c \<or> (0x61 \<le> c \<and> c \<le> 0x66) \<or> (0x41 \<le> c \<and> c \<le> 0x46)"

definition isValidUUID :: "jsstring \<Rightarrow> bool" where
  "isValidUUID s \<longleftrightarrow>
     length s = 36 \<and>
     list_all isHex (take 8 s) \<and> s ! 8 = 0x2D \<and>
     list_all isHex (take 4 (drop 9 s)) \<and> s ! 13 = 0x2D \<and>
     list_all isHex (take 4 (drop 14 s)) \<and> s ! 18 = 0x2D \<and>
     list_all isHex (take 4 (drop 19 s)) \<and> s ! 23 = 0x2D \<and>
     list_all isHex (drop 24 s)"

text \<open>
  \<^verbatim>\<open>
  function isValidDateString(str: string): boolean {
    const dateRegex = /^\d{4}-\d{2}-\d{2}$/;
    if (!dateRegex.test(str)) return false;
    const date = new Date(str);
    return !isNaN(date.getTime());
  }
  \<close>
  \<open>new Date(str)\<close> is only ever applied to a string the expression accepts: four digits, two
  digits and two digits. The engine of the Deno runtime (V8) reads it in two steps.
  \<^item> As a date-only ISO string, when the month is from 01 to 12 and the day from 01 to 31,
    whatever the month: midnight UTC of that day, a day past the end of the month being
    counted into the next one.
  \<^item> Otherwise by its older reader, which is handed the three numbers in their order. When
    the first is a possible day of a month (1 to 31) it takes them for month, day and year,
    and the result is a date when the first is a month (1 to 12) and the second a day (1 to
    31); a year below 50 is of this century, another year below 100 of the last one. The
    date is midnight in local time. So \<open>0001-13-10\<close> is the 13th of January 2010. When the
    first number is no day of a month the numbers are year, month and day, and the month or
    the day is out of range.
  Anything else is an invalid date, whose time value is NaN (\<open>None\<close>). The time value is in
  milliseconds since 1970-01-01.
\<close>

definition dateRegex :: "jsstring \<Rightarrow> bool" where
  "dateRegex s \<longleftrightarrow>
     length s = 10 \<and>
     list_all isDigit (take 4 s) \<and> s ! 4 = 0x2D \<and>
     list_all isDigit (take 2 (drop 5 s)) \<and> s ! 7 = 0x2D \<and>
     list_all isDigit (drop 8 s)"

text \<open>The number of days from 1970-01-01 to the first day of a month, plus the day.\<close>

definition daysFromCivil :: "int \<Rightarrow> int \<Rightarrow> int \<Rightarrow> int" where
  "daysFromCivil y m d =
     (let y' = (if m \<le> 2 then y - 1 else y);
          era = y' div 400;
          yoe = y' mod 400;
          mp = (m + 9) mod 12;
          doy = (153 * mp + 2) div 5 + d - 1;
          doe = yoe * 365 + yoe div 4 - yoe div 100 + doy
      in era * 146097 + doe - 719468)"

definition msPerDay :: int where
  "msPerDay = 1000 * 60 * 60 * 24"

definition newDate :: "runtime \<Rightarrow> jsstring \<Rightarrow> int option" where
  "newDate rt s =
     (let y = int (digitsValue (take 4 s));
          m = int (digitsValue (take 2 (drop 5 s)));
          d = int (digitsValue (drop 8 s))
      in if \<not> dateRegex s then None
         else if 1 \<le> m \<and> m \<le> 12 \<and> 1 \<le> d \<and> d \<le> 31
           then Some (daysFromCivil y m d * msPerDay)
         else if 1 \<le> y \<and> y \<le> 12 \<and> 1 \<le> m \<and> m \<le> 31
           then Some (localToUTC rt
                        (daysFromCivil (if d < 50 then 2000 + d else 1900 + d) y m * msPerDay))
         else None)"

definition isValidDateString :: "runtime \<Rightarrow> jsstring \<Rightarrow> bool" where
  "isValidDateString rt s \<longleftrightarrow> dateRegex s \<and> newDate rt s \<noteq> None"

text \<open>\<open>endDate < startDate\<close> on two dates compares their time values; NaN is below nothing.\<close>

fun dateLess :: "int option \<Rightarrow> int option \<Rightarrow> bool" where
  "dateLess (Some a) (Some b) = (a < b)"
| "dateLess _ _ = False"

text \<open>
  \<open>Math.ceil((endDate.getTime() - startDate.getTime()) / (1000 * 60 * 60 * 24))\<close>. The time
  values are integers below \<open>2^53\<close>, so the difference is exact, and for a difference of that
  size the quotient rounded to a double has the ceiling of the exact quotient; \<open>None\<close> is NaN.
\<close>

fun durationDays :: "int option \<Rightarrow> int option \<Rightarrow> int option" where
  "durationDays (Some s) (Some e) = Some \<lceil>rat_of_int (e - s) / rat_of_int msPerDay\<rceil>"
| "durationDays _ _ = None"

fun exceeds :: "int option \<Rightarrow> int \<Rightarrow> bool" where
  "exceeds (Some n) k = (k < n)"
| "exceeds None k = False"

text \<open>\<open>xs.filter((p): p is string => typeof p === 'string')\<close>\<close>

fun stringsOf :: "json list \<Rightarrow> jsstring list" where
  "stringsOf [] = []"
| "stringsOf (JStr s # xs) = s # stringsOf xs"
| "stringsOf (_ # xs) = stringsOf xs"

fun isArray :: "json option \<Rightarrow> bool" where
  "isArray (Some (JArr _)) = True"
| "isArray _ = False"

fun elements :: "json option \<Rightarrow> json list" where
  "elements (Some (JArr xs)) = xs"
| "elements _ = []"

subsection \<open>\<open>validateTripInput\<close>\<close>

record trip_request =
  tripId :: jsstring
  destination :: jsstring
  startDate :: jsstring
  endDate :: jsstring
  travelers :: jsnum
  budget :: "jsnum option"
  preferences :: "jsstring list"

text \<open>
  The checks of the source, in its order; a \<open>throw new Error(m)\<close> is \<open>Inl (Error m)\<close>. A
  condition \<open>a || b\<close> of the source is two tests in a row with the same outcome. \<open>budget\<close> is
  \<open>None\<close> for \<open>null\<close>.
\<close>

definition validateTripInput :: "runtime \<Rightarrow> json \<Rightarrow> jserror + trip_request" where
  "validateTripInput rt body =
     (let tripIdV = getProp body (js ''tripId'');
          destinationV = getProp body (js ''destination'');
          startDateV = getProp body (js ''startDate'');
          endDateV = getProp body (js ''endDate'');
          travelersV = getProp body (js ''travelers'');
          budgetV = getProp body (js ''budget'');
          preferencesV = getProp body (js ''preferences'');
          start = newDate rt (toStrO rt startDateV);
          end = newDate rt (toStrO rt endDateV);
          travelersN = (case travelersV of None \<Rightarrow> Finite 1 | Some v \<Rightarrow> toNum rt v);
          budgetN = (case budgetV of None \<Rightarrow> None | Some JNull \<Rightarrow> None | Some v \<Rightarrow> Some (toNum rt v))
      in
      if \<not> truthy body then Inl (Error (js ''Invalid request body''))
      else if \<not> isObjectType body then Inl (Error (js ''Invalid request body''))
      else if \<not> truthyO tripIdV then Inl (Error (js ''Invalid or missing tripId''))
      else if \<not> isValidUUID (toStrO rt tripIdV) then Inl (Error (js ''Invalid or missing tripId''))
      else if \<not> truthyO destinationV then Inl (Error (js ''Destination is required''))
      else if \<not> isStringO destinationV then Inl (Error (js ''Destination is required''))
      else if length (trim (toStrO rt destinationV)) = 0 then Inl (Error (js ''Destination is required''))
      else if length (toStrO rt destinationV) > 200
        then Inl (Error (js ''Destination must be less than 200 characters''))
      else if \<not> truthyO startDateV
        then Inl (Error (js ''Invalid or missing startDate (format: YYYY-MM-DD)''))
      else if \<not> isValidDateString rt (toStrO rt startDateV)
        then Inl (Error (js ''Invalid or missing startDate (format: YYYY-MM-DD)''))
      else if \<not> truthyO endDateV
        then Inl (Error (js ''Invalid or missing endDate (format: YYYY-MM-DD)''))
      else if \<not> isValidDateString rt (toStrO rt endDateV)
        then Inl (Error (js ''Invalid or missing endDate (format: YYYY-MM-DD)''))
      else if dateLess end start then Inl (Error (js ''End date must be after start date''))
      else if exceeds (durationDays start end) 90
        then Inl (Error (js ''Trip duration cannot exceed 90 days''))
      else if travelersV \<noteq> None \<and>
              (isNaN travelersN \<or> lt travelersN (Finite 1) \<or> lt (Finite 20) travelersN \<or>
               \<not> isInteger travelersN)
        then Inl (Error (js ''Travelers must be an integer between 1 and 20''))
      else if (case budgetN of None \<Rightarrow> False
               | Some b \<Rightarrow> isNaN b \<or> lt b (Finite 0) \<or> lt (Finite 100000000) b)
        then Inl (Error (js ''Budget must be a positive number''))
      else if preferencesV \<noteq> None \<and> \<not> isArray preferencesV
        then Inl (Error (js ''Preferences must be an array''))
      else if length (elements preferencesV) > 15
        then Inl (Error (js ''Maximum 15 preferences allowed''))
      else Inr \<lparr> tripId = toStrO rt tripIdV,
                 destination = sanitizeString (toStrO rt destinationV) 200,
                 startDate = toStrO rt startDateV,
                 endDate = toStrO rt endDateV,
                 travelers = travelersN,
                 budget = budgetN,
                 preferences =
                   filter (\<lambda>p. length p > 0)
                     (map (\<lambda>p. sanitizeString p 50) (stringsOf (elements preferencesV))) \<rparr>)"

text \<open>A validated request as a request body again: what a caller sends to be validated.\<close>

definition toBody :: "trip_request \<Rightarrow> json" where
  "toBody r =
     JObj [(js ''tripId'', JStr (tripId r)),
           (js ''destination'', JStr (destination r)),
           (js ''startDate'', JStr (startDate r)),
           (js ''endDate'', JStr (endDate r)),
           (js ''travelers'', JNum (travelers r)),
           (js ''budget'', (case budget r of None \<Rightarrow> JNull | Some b \<Rightarrow> JNum b)),
           (js ''preferences'', JArr (map JStr (preferences r)))]"

subsection \<open>Example requests\<close>

text \<open>
  A runtime to evaluate examples with, in a process whose time zone is UTC: none of the
  examples reaches an operation of the runtime, so its answers are of no account.
\<close>

definition exampleRuntime :: runtime where
  "exampleRuntime =
     \<lparr> stringToNumber = (\<lambda>s. NaN), numberToString = (\<lambda>n. []),
       multiply = (\<lambda>a b. NaN), syntaxErrorMessage = (\<lambda>s. js ''Unexpected token''),
       localToUTC = (\<lambda>t. t) \<rparr>"

definition exampleTripId :: jsstring where
  "exampleTripId = js ''123e4567-e89b-12d3-a456-426614174000''"

definition exampleBody :: "jsstring \<Rightarrow> jsstring \<Rightarrow> jsstring \<Rightarrow> json" where
  "exampleBody dest start end =
     JObj [(js ''tripId'', JStr exampleTripId),
           (js ''destination'', JStr dest),
           (js ''startDate'', JStr start),
           (js ''endDate'', JStr end)]"

lemmas validate_eval =
  validateTripInput_def exampleBody_def exampleTripId_def js_def isValidUUID_def isHex_def
  isDigit_def trim_def isSpace_def isValidDateString_def dateRegex_def newDate_def
  digitsValue_def daysFromCivil_def msPerDay_def sanitizeString_def dangerous_def Let_def

subsection \<open>The date rules of the validator\<close>

text \<open>
  A date of the ISO form is midnight UTC, so between two such dates the day span is the
  whole number of days from the one to the other.
\<close>

lemma newDate_iso:
  assumes "dateRegex s"
      and "1 \<le> digitsValue (take 2 (drop 5 s))" and "digitsValue (take 2 (drop 5 s)) \<le> 12"
      and "1 \<le> digitsValue (drop 8 s)" and "digitsValue (drop 8 s) \<le> 31"
  shows "newDate rt s =
           Some (daysFromCivil (int (digitsValue (take 4 s))) (int (digitsValue (take 2 (drop 5 s))))
                   (int (digitsValue (drop 8 s))) * msPerDay)"
  using assms by (simp add: newDate_def Let_def)

lemma durationDays_whole_days:
  "durationDays (Some (d1 * msPerDay)) (Some (d2 * msPerDay)) = Some (d2 - d1)"
proof -
  have "rat_of_int (d2 * msPerDay - d1 * msPerDay) / rat_of_int msPerDay = rat_of_int (d2 - d1)"
    by (simp add: msPerDay_def diff_divide_distrib)
  then show ?thesis by simp
qed

text \<open>
  A string that only the older reader accepts: \<open>0001-13-10\<close> is a valid date, the 13th of
  January 2010 in local time, and \<open>2024-13-10\<close> is none.
\<close>

lemma newDate_legacy:
  "newDate rt (js ''0001-13-10'') = Some (localToUTC rt 1263340800000)"
  "isValidDateString rt (js ''0001-13-10'')"
  "newDate rt (js ''0012-31-24'') = Some (localToUTC rt 1735603200000)"
  "newDate rt (js ''2024-13-10'') = None"
  "\<not> isValidDateString rt (js ''2024-13-10'')"
  by (simp_all add: isValidDateString_def js_def newDate_def dateRegex_def isDigit_def
      digitsValue_def daysFromCivil_def msPerDay_def Let_def)

lemma validate_legacy_dates:
  "validateTripInput rt (exampleBody (js ''Paris'') (js ''0001-13-10'') (js ''0001-13-10'')) =
     Inr \<lparr> tripId = exampleTripId, destination = js ''Paris'', startDate = js ''0001-13-10'',
           endDate = js ''0001-13-10'', travelers = Finite 1, budget = None, preferences = [] \<rparr>"
  by (simp add: validate_eval)

lemma span_90_not_before:
  assumes "\<lceil>rat_of_int (b - a) / rat_of_int msPerDay\<rceil> = 90"
  shows "\<not> b < a"
proof
  assume "b < a"
  then have "rat_of_int (b - a) / rat_of_int msPerDay \<le> 0"
    by (simp add: msPerDay_def divide_le_0_iff)
  then have "\<lceil>rat_of_int (b - a) / rat_of_int msPerDay\<rceil> \<le> 0"
    by (simp add: ceiling_le_iff)
  with assms show False by simp
qed

text \<open>
  Claim C3. Take a request whose \<open>startDate\<close> and \<open>endDate\<close> are well-formed dates, with time
  values \<open>a\<close> and \<open>b\<close>, and let \<open>n\<close> be the day span \<open>ceil((b - a) / 86400000)\<close>. Validation
  fails whenever \<open>b < a\<close>, and whenever \<open>n\<close> exceeds 90, so at 91. When \<open>b\<close> is not before \<open>a\<close> and
  \<open>n\<close> is at most 90, so at exactly 90, a request that meets the rules for its other members
  passes: the validator returns a request, with these dates. The rules for the other members
  are those of the source: a body that is an object, a \<open>tripId\<close> that is a UUID, a destination
  that is a string, not empty when trimmed and of at most 200 code units, and, where they are
  given, a whole number of travelers from 1 to 20, a budget that is \<open>null\<close> or a number from 0
  to 100000000, and an array of at most 15 preferences.
\<close>

theorem validateTripInput_date_rules:
  assumes "isValidDateString rt (toStrO rt (getProp body (js ''startDate'')))"
      and "isValidDateString rt (toStrO rt (getProp body (js ''endDate'')))"
      and "newDate rt (toStrO rt (getProp body (js ''startDate''))) = Some a"
      and "newDate rt (toStrO rt (getProp body (js ''endDate''))) = Some b"
      and "durationDays (Some a) (Some b) = Some n"
  shows "n = \<lceil>rat_of_int (b - a) / 86400000\<rceil> \<and>
         (b < a \<longrightarrow> isl (validateTripInput rt body)) \<and>
         (90 < n \<longrightarrow> isl (validateTripInput rt body)) \<and>
         (n = 91 \<longrightarrow> isl (validateTripInput rt body)) \<and>
         (n = 90 \<longrightarrow> \<not> b < a) \<and>
         (\<not> b < a \<and> n \<le> 90 \<and>
          truthy body \<and> isObjectType body \<and>
          truthyO (getProp body (js ''tripId'')) \<and>
          isValidUUID (toStrO rt (getProp body (js ''tripId''))) \<and>
          isStringO (getProp body (js ''destination'')) \<and>
          trim (toStrO rt (getProp body (js ''destination''))) \<noteq> [] \<and>
          length (toStrO rt (getProp body (js ''destination''))) \<le> 200 \<and>
          truthyO (getProp body (js ''startDate'')) \<and>
          truthyO (getProp body (js ''endDate'')) \<and>
          (\<forall>v. getProp body (js ''travelers'') = Some v \<longrightarrow>
             \<not> isNaN (toNum rt v) \<and> \<not> lt (toNum rt v) (Finite 1) \<and>
             \<not> lt (Finite 20) (toNum rt v) \<and> isInteger (toNum rt v)) \<and>
          (\<forall>v. getProp body (js ''budget'') = Some v \<longrightarrow>
             v = JNull \<or>
             (\<not> isNaN (toNum rt v) \<and> \<not> lt (toNum rt v) (Finite 0) \<and>
              \<not> lt (Finite 100000000) (toNum rt v))) \<and>
          (\<forall>v. getProp body (js ''preferences'') = Some v \<longrightarrow>
             (\<exists>xs. v = JArr xs \<and> length xs \<le> 15)) \<longrightarrow>
            (\<exists>r. validateTripInput rt body = Inr r \<and>
                 startDate r = toStrO rt (getProp body (js ''startDate'')) \<and>
                 endDate r = toStrO rt (getProp body (js ''endDate''))))"
proof -
  have n: "n = \<lceil>rat_of_int (b - a) / 86400000\<rceil>"
    using assms(5) by (simp add: msPerDay_def)
  have less: "isl (validateTripInput rt body)" if "b < a"
    using that assms(3,4) by (simp add: validateTripInput_def Let_def)
  have over: "isl (validateTripInput rt body)" if "90 < n"
    using that assms(3,4,5) by (simp add: validateTripInput_def Let_def)
  have at90: "\<not> b < a" if "n = 90"
    using that span_90_not_before [of b a] n by (simp add: msPerDay_def)
  have pass: "\<exists>r. validateTripInput rt body = Inr r \<and>
      startDate r = toStrO rt (getProp body (js ''startDate'')) \<and>
      endDate r = toStrO rt (getProp body (js ''endDate''))"
    if h: "\<not> b < a" "n \<le> 90" "truthy body" "isObjectType body"
      "truthyO (getProp body (js ''tripId''))"
      "isValidUUID (toStrO rt (getProp body (js ''tripId'')))"
      "isStringO (getProp body (js ''destination''))"
      "trim (toStrO rt (getProp body (js ''destination''))) \<noteq> []"
      "length (toStrO rt (getProp body (js ''destination''))) \<le> 200"
      "truthyO (getProp body (js ''startDate''))"
      "truthyO (getProp body (js ''endDate''))"
      "\<forall>v. getProp body (js ''travelers'') = Some v \<longrightarrow>
         \<not> isNaN (toNum rt v) \<and> \<not> lt (toNum rt v) (Finite 1) \<and>
         \<not> lt (Finite 20) (toNum rt v) \<and> isInteger (toNum rt v)"
      "\<forall>v. getProp body (js ''budget'') = Some v \<longrightarrow>
         v = JNull \<or>
         (\<not> isNaN (toNum rt v) \<and> \<not> lt (toNum rt v) (Finite 0) \<and>
          \<not> lt (Finite 100000000) (toNum rt v))"
      "\<forall>v. getProp body (js ''preferences'') = Some v \<longrightarrow>
         (\<exists>xs. v = JArr xs \<and> length xs \<le> 15)"
  proof -
    obtain s where s: "getProp body (js ''destination'') = Some (JStr s)"
      using h(7) by (cases "getProp body (js ''destination'')") (auto elim: isString.elims)
    have "s \<noteq> []"
      using h(8) s by (auto simp: trim_def)
    then have dest: "truthyO (getProp body (js ''destination''))"
      by (simp add: s)
    have dates: "\<not> dateLess (Some b) (Some a)" "\<not> exceeds (durationDays (Some a) (Some b)) 90"
      using h(1,2) assms(5) by simp_all
    note required = h(3-11) dest assms(1-4) dates
    show ?thesis
    proof (cases "getProp body (js ''travelers'')")
      case None
      show ?thesis
      proof (cases "getProp body (js ''budget'')")
        case nb: None
        show ?thesis
        proof (cases "getProp body (js ''preferences'')")
          case np: None
          show ?thesis
            unfolding validateTripInput_def Let_def using required by (simp add: None nb np)
        next
          case (Some p)
          with h(14) obtain xs where "p = JArr xs" "length xs \<le> 15" by blast
          then show ?thesis
            unfolding validateTripInput_def Let_def using required by (simp add: None nb Some)
        qed
      next
        case sb: (Some bv)
        with h(13) have bv: "bv = JNull \<or>
            (\<not> isNaN (toNum rt bv) \<and> \<not> lt (toNum rt bv) (Finite 0) \<and>
             \<not> lt (Finite 100000000) (toNum rt bv))"
          by blast
        show ?thesis
        proof (cases "getProp body (js ''preferences'')")
          case np: None
          show ?thesis
            unfolding validateTripInput_def Let_def using required bv
            by (cases bv) (simp_all add: None sb np)
        next
          case (Some p)
          with h(14) obtain xs where "p = JArr xs" "length xs \<le> 15" by blast
          then show ?thesis
            unfolding validateTripInput_def Let_def using required bv
            by (cases bv) (simp_all add: None sb Some)
        qed
      qed
    next
      case st: (Some tv)
      with h(12) have tv: "\<not> isNaN (toNum rt tv)" "\<not> lt (toNum rt tv) (Finite 1)"
        "\<not> lt (Finite 20) (toNum rt tv)" "isInteger (toNum rt tv)"
        by blast+
      show ?thesis
      proof (cases "getProp body (js ''budget'')")
        case nb: None
        show ?thesis
        proof (cases "getProp body (js ''preferences'')")
          case np: None
          show ?thesis
            unfolding validateTripInput_def Let_def using required tv by (simp add: st nb np)
        next
          case (Some p)
          with h(14) obtain xs where "p = JArr xs" "length xs \<le> 15" by blast
          then show ?thesis
            unfolding validateTripInput_def Let_def using required tv by (simp add: st nb Some)
        qed
      next
        case sb: (Some bv)
        with h(13) have bv: "bv = JNull \<or>
            (\<not> isNaN (toNum rt bv) \<and> \<not> lt (toNum rt bv) (Finite 0) \<and>
             \<not> lt (Finite 100000000) (toNum rt bv))"
          by blast
        show ?thesis
        proof (cases "getProp body (js ''preferences'')")
          case np: None
          show ?thesis
            unfolding validateTripInput_def Let_def using required tv bv
            by (cases bv) (simp_all add: st sb np)
        next
          case (Some p)
          with h(14) obtain xs where "p = JArr xs" "length xs \<le> 15" by blast
          then show ?thesis
            unfolding validateTripInput_def Let_def using required tv bv
            by (cases bv) (simp_all add: st sb Some)
        qed
      qed
    qed
  qed
  have at91: "isl (validateTripInput rt body)" if "n = 91"
    using that over by simp
  show ?thesis
    using n less over at91 at90 pass by blast
qed

text \<open>
  The theorem at two requests: from 2024-01-01 to 2024-03-31, 90 days, which the validator
  accepts, and from 2024-01-01 to 2024-04-01, 91 days, which it rejects.
\<close>

lemma newDate_examples:
  "newDate rt (js ''2024-01-01'') = Some 1704067200000"
  "newDate rt (js ''2024-03-31'') = Some 1711843200000"
  "newDate rt (js ''2024-04-01'') = Some 1711929600000"
  by (simp_all add: js_def newDate_def dateRegex_def isDigit_def digitsValue_def
      daysFromCivil_def msPerDay_def Let_def)

lemma durationDays_examples:
  "durationDays (Some 1704067200000) (Some 1711843200000) = Some 90"
  "durationDays (Some 1704067200000) (Some 1711929600000) = Some 91"
  using durationDays_whole_days [of 19723 19813] durationDays_whole_days [of 19723 19814]
  by (simp_all add: msPerDay_def)

lemma validate_90_days:
  "validateTripInput rt (exampleBody (js ''Paris'') (js ''2024-01-01'') (js ''2024-03-31'')) =
     Inr \<lparr> tripId = exampleTripId, destination = js ''Paris'', startDate = js ''2024-01-01'',
           endDate = js ''2024-03-31'', travelers = Finite 1, budget = None, preferences = [] \<rparr>"
  by (simp add: validate_eval)

lemma validate_91_days:
  "validateTripInput rt (exampleBody (js ''Paris'') (js ''2024-01-01'') (js ''2024-04-01'')) =
     Inl (Error (js ''Trip duration cannot exceed 90 days''))"
  by (simp add: validate_eval)

lemma exampleBody_members:
  "getProp (exampleBody d s e) (js ''tripId'') = Some (JStr exampleTripId)"
  "getProp (exampleBody d s e) (js ''destination'') = Some (JStr d)"
  "getProp (exampleBody d s e) (js ''startDate'') = Some (JStr s)"
  "getProp (exampleBody d s e) (js ''endDate'') = Some (JStr e)"
  "getProp (exampleBody d s e) (js ''travelers'') = None"
  "getProp (exampleBody d s e) (js ''budget'') = None"
  "getProp (exampleBody d s e) (js ''preferences'') = None"
  "truthy (exampleBody d s e)" "isObjectType (exampleBody d s e)"
  by (simp_all add: exampleBody_def js_def)

lemma example_members_valid:
  "isValidUUID exampleTripId" "exampleTripId \<noteq> []"
  "trim (js ''Paris'') \<noteq> []" "length (js ''Paris'') \<le> 200"
  "sanitizeString (js ''Paris'') 200 = js ''Paris''"
  "js ''2024-01-01'' \<noteq> []" "js ''2024-03-31'' \<noteq> []" "js ''2024-04-01'' \<noteq> []"
  by (simp_all add: exampleTripId_def isValidUUID_def isHex_def isDigit_def js_def trim_def
      isSpace_def sanitizeString_def dangerous_def)

theorem validateTripInput_date_rules_witness:
  "isValidDateString exampleRuntime (js ''2024-01-01'') \<and>
   isValidDateString exampleRuntime (js ''2024-03-31'') \<and>
   isValidDateString exampleRuntime (js ''2024-04-01'') \<and>
   newDate exampleRuntime (js ''2024-01-01'') = Some 1704067200000 \<and>
   newDate exampleRuntime (js ''2024-03-31'') = Some 1711843200000 \<and>
   newDate exampleRuntime (js ''2024-04-01'') = Some 1711929600000 \<and>
   durationDays (Some 1704067200000) (Some 1711843200000) = Some 90 \<and>
   durationDays (Some 1704067200000) (Some 1711929600000) = Some 91 \<and>
   (\<exists>r. validateTripInput exampleRuntime
          (exampleBody (js ''Paris'') (js ''2024-01-01'') (js ''2024-03-31'')) = Inr r \<and>
        startDate r = js ''2024-01-01'' \<and> endDate r = js ''2024-03-31'') \<and>
   isl (validateTripInput exampleRuntime
          (exampleBody (js ''Paris'') (js ''2024-01-01'') (js ''2024-04-01'')))"
proof -
  have valid: "isValidDateString exampleRuntime (js ''2024-01-01'')"
    "isValidDateString exampleRuntime (js ''2024-03-31'')"
    "isValidDateString exampleRuntime (js ''2024-04-01'')"
    by (simp_all add: isValidDateString_def newDate_examples)
      (simp_all add: js_def dateRegex_def isDigit_def)
  let ?b90 = "exampleBody (js ''Paris'') (js ''2024-01-01'') (js ''2024-03-31'')"
  let ?b91 = "exampleBody (js ''Paris'') (js ''2024-01-01'') (js ''2024-04-01'')"
  have dates:
    "isValidDateString exampleRuntime (toStrO exampleRuntime (getProp ?b90 (js ''startDate'')))"
    "isValidDateString exampleRuntime (toStrO exampleRuntime (getProp ?b90 (js ''endDate'')))"
    "isValidDateString exampleRuntime (toStrO exampleRuntime (getProp ?b91 (js ''startDate'')))"
    "isValidDateString exampleRuntime (toStrO exampleRuntime (getProp ?b91 (js ''endDate'')))"
    "newDate exampleRuntime (toStrO exampleRuntime (getProp ?b90 (js ''startDate''))) =
       Some 1704067200000"
    "newDate exampleRuntime (toStrO exampleRuntime (getProp ?b90 (js ''endDate''))) =
       Some 1711843200000"
    "newDate exampleRuntime (toStrO exampleRuntime (getProp ?b91 (js ''startDate''))) =
       Some 1704067200000"
    "newDate exampleRuntime (toStrO exampleRuntime (getProp ?b91 (js ''endDate''))) =
       Some 1711929600000"
    using valid by (simp_all add: exampleBody_members newDate_examples)
  note at90 = validateTripInput_date_rules
    [OF dates(1) dates(2) dates(5) dates(6) durationDays_examples(1)]
  note at91 = validateTripInput_date_rules
    [OF dates(3) dates(4) dates(7) dates(8) durationDays_examples(2)]
  have "\<exists>r. validateTripInput exampleRuntime ?b90 = Inr r \<and> startDate r = js ''2024-01-01'' \<and>
      endDate r = js ''2024-03-31''"
    using at90 by (simp add: exampleBody_members example_members_valid)
  moreover have "isl (validateTripInput exampleRuntime ?b91)"
    using at91 by simp
  ultimately show ?thesis
    using valid durationDays_examples by (simp add: newDate_examples)
qed

subsection \<open>A destination of dangerous characters only\<close>

text \<open>
  Claim C10. The validator accepts a request whose destination is \<open><>\<close>: the test that the
  destination is not empty after trimming reads the raw string, and the returned request
  holds the sanitized one, which is empty.
\<close>

theorem validateTripInput_accepts_empty_destination:
  "\<exists>body r. getProp body (js ''destination'') = Some (JStr (js ''<>'')) \<and>
     validateTripInput rt body = Inr r \<and> destination r = []"
proof (intro exI conjI)
  show "getProp (exampleBody (js ''<>'') (js ''2024-06-01'') (js ''2024-06-03''))
      (js ''destination'') = Some (JStr (js ''<>''))"
    by (simp add: exampleBody_def js_def)
  show "validateTripInput rt (exampleBody (js ''<>'') (js ''2024-06-01'') (js ''2024-06-03'')) =
      Inr \<lparr> tripId = exampleTripId, destination = [], startDate = js ''2024-06-01'',
            endDate = js ''2024-06-03'', travelers = Finite 1, budget = None,
            preferences = [] \<rparr>"
    by (simp add: validate_eval)
  show "destination \<lparr> tripId = exampleTripId, destination = [], startDate = js ''2024-06-01'',
      endDate = js ''2024-06-03'', travelers = Finite 1, budget = None, preferences = [] \<rparr> = []"
    by simp
qed

subsection \<open>Validating a validated request\<close>

text \<open>
  Claim C9 asks that a request the validator returns is accepted again, unchanged. The
  request returned for the destination \<open><>\<close> has the empty destination, and the validator
  rejects it: \<open>Destination is required\<close>.
\<close>

theorem validateTripInput_rejects_own_output:
  "validateTripInput rt (exampleBody (js ''<>'') (js ''2024-06-01'') (js ''2024-06-03'')) =
     Inr \<lparr> tripId = exampleTripId, destination = [], startDate = js ''2024-06-01'',
           endDate = js ''2024-06-03'', travelers = Finite 1, budget = None, preferences = [] \<rparr> \<and>
   validateTripInput rt
     (toBody \<lparr> tripId = exampleTripId, destination = [], startDate = js ''2024-06-01'',
              endDate = js ''2024-06-03'', travelers = Finite 1, budget = None,
              preferences = [] \<rparr>) =
     Inl (Error (js ''Destination is required''))"
  by (simp add: validate_eval toBody_def)

subsection \<open>\<open>normalizeJsonText\<close>\<close>

text \<open>
  \<^verbatim>\<open>
  function normalizeJsonText(input: string): string {
    let text = input;
    text = text.replace(/,\s*([}\]])/g, '$1');
    text = text.replace(/[\x00-\x1F\x7F]/g, '');
    text = text.replace(
      /:\s*(\d+(?:\.\d+)?)\s*\*\s*(\d+(?:\.\d+)?)(?=\s*[\n,}\]])/g,
      (_m, a, b) => {
        const n = Number(a) * Number(b);
        return `: ${Number.isFinite(n) ? Math.round(n) : 0}`;
      }
    );
    text = text.replace(/:\s*(\d+(?:\.\d+)?)(?:\s*\([^)]*\))(?=\s*[\n,}\]])/g,
                        (_m, num) => `: ${num}`);
    return text;
  }
  \<close>
  A global \<open>replace\<close> scans the text from the left: at each position it tries the expression;
  on a match it writes the replacement and goes on after the match, otherwise it keeps the
  code unit and tries the next position. Each expression is modelled by a function that
  tries it at one position. The quantifiers are greedy, and in these expressions giving back
  what a quantifier took never helps: what follows \<open>\s*\<close> is never a space, and what follows a
  number is never a digit or a dot. The one exception is the lookahead \<open>(?=\s*[\n,}\]])\<close>, as
  a line feed is a space and a separator.
\<close>

definition isCloser :: "nat \<Rightarrow> bool" where
  "isCloser c \<longleftrightarrow> c = 0x7D \<or> c = 0x5D"

text \<open>\<open>/,\s*([}\]])/g\<close> replaced by \<open>$1\<close>: a comma before a closing brace or bracket goes.\<close>

function removeTrailingCommas :: "jsstring \<Rightarrow> jsstring" where
  "removeTrailingCommas [] = []"
| "removeTrailingCommas (c # cs) =
     (if c = 0x2C then
        (case dropWhile isSpace cs of
           [] \<Rightarrow> c # removeTrailingCommas cs
         | d # rest \<Rightarrow>
             if isCloser d then d # removeTrailingCommas rest else c # removeTrailingCommas cs)
      else c # removeTrailingCommas cs)"
  by pat_completeness auto
termination
proof (relation "measure length")
  fix c :: nat and cs d rest
  assume "dropWhile isSpace cs = d # rest"
  then have "length (d # rest) \<le> length cs"
    by (metis length_dropWhile_le)
  then show "(rest, c # cs) \<in> measure length" by simp
qed auto

text \<open>\<open>/[\x00-\x1F\x7F]/g\<close>: the control characters.\<close>

definition isControl :: "nat \<Rightarrow> bool" where
  "isControl c \<longleftrightarrow> c \<le> 0x1F \<or> c = 0x7F"

text \<open>\<open>(\d+(?:\.\d+)?)\<close> at the start of a text: the number and what follows it.\<close>

definition matchNumber :: "jsstring \<Rightarrow> (jsstring \<times> jsstring) option" where
  "matchNumber cs =
     (let ds = takeWhile isDigit cs; r = dropWhile isDigit cs in
      if ds = [] then None
      else case r of
             [] \<Rightarrow> Some (ds, r)
           | c # r' \<Rightarrow>
               if c = 0x2E \<and> takeWhile isDigit r' \<noteq> []
               then Some (ds @ [0x2E] @ takeWhile isDigit r', dropWhile isDigit r')
               else Some (ds, r))"

text \<open>The lookahead \<open>(?=\s*[\n,}\]])\<close>: a separator after spaces, or a line feed among them.\<close>

definition isSeparator :: "nat \<Rightarrow> bool" where
  "isSeparator c \<longleftrightarrow> c = 0x0A \<or> c = 0x2C \<or> c = 0x7D \<or> c = 0x5D"

definition separatorAhead :: "jsstring \<Rightarrow> bool" where
  "separatorAhead cs \<longleftrightarrow>
     0x0A \<in> set (takeWhile isSpace cs) \<or>
     (case dropWhile isSpace cs of [] \<Rightarrow> False | c # _ \<Rightarrow> isSeparator c)"

text \<open>
  \<open>\s*(\d+(?:\.\d+)?)\s*\*\s*(\d+(?:\.\d+)?)(?=\s*[\n,}\]])\<close> after a colon: the two numbers and
  what follows the match.
\<close>

definition matchMultiplication :: "jsstring \<Rightarrow> (jsstring \<times> jsstring \<times> jsstring) option" where
  "matchMultiplication cs =
     (case matchNumber (dropWhile isSpace cs) of
        None \<Rightarrow> None
      | Some (a, r1) \<Rightarrow>
          (case dropWhile isSpace r1 of
             [] \<Rightarrow> None
           | c # r2 \<Rightarrow>
               if c = 0x2A then
                 (case matchNumber (dropWhile isSpace r2) of
                    None \<Rightarrow> None
                  | Some (b, r3) \<Rightarrow> if separatorAhead r3 then Some (a, b, r3) else None)
               else None))"

text \<open>
  The replacement: \<open>n = Number(a) * Number(b)\<close>, then \<open>Math.round(n)\<close> when \<open>n\<close> is finite and
  \<open>0\<close> otherwise, written into the template. The product of two integers is exact when it
  stays below \<open>2^53\<close>; any other product is the runtime's.
\<close>

definition jsMultiply :: "runtime \<Rightarrow> jsnum \<Rightarrow> jsnum \<Rightarrow> jsnum" where
  "jsMultiply rt x y =
     (case (x, y) of
        (Finite p, Finite q) \<Rightarrow>
          if of_int \<lfloor>p\<rfloor> = p \<and> of_int \<lfloor>q\<rfloor> = q \<and> \<bar>p * q\<bar> < 2 ^ 53
          then Finite (p * q) else multiply rt x y
      | _ \<Rightarrow> multiply rt x y)"

fun isFinite :: "jsnum \<Rightarrow> bool" where
  "isFinite (Finite q) = True"
| "isFinite _ = False"

fun mathRound :: "jsnum \<Rightarrow> jsnum" where
  "mathRound (Finite q) = Finite (of_int \<lfloor>q + 1 / 2\<rfloor>)"
| "mathRound n = n"

definition productText :: "runtime \<Rightarrow> jsstring \<Rightarrow> jsstring \<Rightarrow> jsstring" where
  "productText rt a b =
     (let n = jsMultiply rt (strToNum rt a) (strToNum rt b)
      in if isFinite n then numToStr rt (mathRound n) else js ''0'')"

lemma dropWhile_Cons_length: "dropWhile P xs = y # ys \<Longrightarrow> length ys < length xs"
  by (metis length_dropWhile_le length_Cons Suc_le_eq)

lemma matchNumber_rest:
  assumes "matchNumber cs = Some (a, r)"
  shows "r = dropWhile isDigit cs \<or>
         (\<exists>r'. dropWhile isDigit cs = 0x2E # r' \<and> r = dropWhile isDigit r')"
  using assms by (auto simp: matchNumber_def Let_def split: if_splits list.splits)

lemma matchNumber_length:
  assumes "matchNumber cs = Some (a, r)"
  shows "length r \<le> length cs"
proof -
  from matchNumber_rest [OF assms] show ?thesis
  proof
    assume "r = dropWhile isDigit cs"
    then show ?thesis by (simp add: length_dropWhile_le)
  next
    assume "\<exists>r'. dropWhile isDigit cs = 0x2E # r' \<and> r = dropWhile isDigit r'"
    then obtain r' where d: "dropWhile isDigit cs = 0x2E # r'" and r: "r = dropWhile isDigit r'"
      by blast
    have "length r \<le> length r'" unfolding r by (rule length_dropWhile_le)
    also have "\<dots> \<le> length cs" using dropWhile_Cons_length [OF d] by simp
    finally show ?thesis .
  qed
qed

lemma matchMultiplication_length:
  assumes "matchMultiplication cs = Some (a, b, rest)"
  shows "length rest \<le> length cs"
proof -
  from assms obtain r1 c r2 where
    1: "matchNumber (dropWhile isSpace cs) = Some (a, r1)" and
    2: "dropWhile isSpace r1 = c # r2" and
    3: "matchNumber (dropWhile isSpace r2) = Some (b, rest)"
    by (auto simp: matchMultiplication_def split: option.splits list.splits if_splits)
  have "length rest \<le> length (dropWhile isSpace r2)" using 3 by (rule matchNumber_length)
  also have "\<dots> \<le> length r2" by (rule length_dropWhile_le)
  also have "\<dots> \<le> length r1" using dropWhile_Cons_length [OF 2] by simp
  also have "\<dots> \<le> length (dropWhile isSpace cs)" using 1 by (rule matchNumber_length)
  also have "\<dots> \<le> length cs" by (rule length_dropWhile_le)
  finally show ?thesis .
qed

function rewriteMultiplications :: "runtime \<Rightarrow> jsstring \<Rightarrow> jsstring" where
  "rewriteMultiplications rt [] = []"
| "rewriteMultiplications rt (c # cs) =
     (if c = 0x3A then
        (case matchMultiplication cs of
           None \<Rightarrow> c # rewriteMultiplications rt cs
         | Some (a, b, rest) \<Rightarrow> js '': '' @ productText rt a b @ rewriteMultiplications rt rest)
      else c # rewriteMultiplications rt cs)"
  by pat_completeness auto
termination
proof (relation "measure (\<lambda>(rt, cs). length cs)")
  fix rt :: runtime and c :: nat and cs x2 a y b rest
  assume "matchMultiplication cs = Some x2" and "(a, y) = x2" and "(b, rest) = y"
  then have "matchMultiplication cs = Some (a, b, rest)" by simp
  then have "length rest \<le> length cs" by (rule matchMultiplication_length)
  then show "((rt, rest), rt, c # cs) \<in> measure (\<lambda>(rt, cs). length cs)" by simp
qed auto

text \<open>
  \<open>\s*(\d+(?:\.\d+)?)(?:\s*\([^)]*\))(?=\s*[\n,}\]])\<close> after a colon: the number and what
  follows the match.
\<close>

definition matchAnnotation :: "jsstring \<Rightarrow> (jsstring \<times> jsstring) option" where
  "matchAnnotation cs =
     (case matchNumber (dropWhile isSpace cs) of
        None \<Rightarrow> None
      | Some (num, r1) \<Rightarrow>
          (case dropWhile isSpace r1 of
             [] \<Rightarrow> None
           | c # r2 \<Rightarrow>
               if c = 0x28 then
                 (case dropWhile (\<lambda>x. x \<noteq> 0x29) r2 of
                    [] \<Rightarrow> None
                  | d # r3 \<Rightarrow> if separatorAhead r3 then Some (num, r3) else None)
               else None))"

lemma matchAnnotation_length:
  assumes "matchAnnotation cs = Some (num, rest)"
  shows "length rest \<le> length cs"
proof -
  from assms obtain r1 c r2 d where
    1: "matchNumber (dropWhile isSpace cs) = Some (num, r1)" and
    2: "dropWhile isSpace r1 = c # r2" and
    3: "dropWhile (\<lambda>x. x \<noteq> 0x29) r2 = d # rest"
    by (auto simp: matchAnnotation_def split: option.splits list.splits if_splits)
  have "length rest \<le> length r2" using dropWhile_Cons_length [OF 3] by simp
  also have "\<dots> \<le> length r1" using dropWhile_Cons_length [OF 2] by simp
  also have "\<dots> \<le> length (dropWhile isSpace cs)" using 1 by (rule matchNumber_length)
  also have "\<dots> \<le> length cs" by (rule length_dropWhile_le)
  finally show ?thesis .
qed

function stripAnnotations :: "jsstring \<Rightarrow> jsstring" where
  "stripAnnotations [] = []"
| "stripAnnotations (c # cs) =
     (if c = 0x3A then
        (case matchAnnotation cs of
           None \<Rightarrow> c # stripAnnotations cs
         | Some (num, rest) \<Rightarrow> js '': '' @ num @ stripAnnotations rest)
      else c # stripAnnotations cs)"
  by pat_completeness auto
termination
proof (relation "measure length")
  fix c :: nat and cs x2 num rest
  assume "matchAnnotation cs = Some x2" and "(num, rest) = x2"
  then have "matchAnnotation cs = Some (num, rest)" by simp
  then have "length rest \<le> length cs" by (rule matchAnnotation_length)
  then show "(rest, c # cs) \<in> measure length" by simp
qed auto

definition normalizeJsonText :: "runtime \<Rightarrow> jsstring \<Rightarrow> jsstring" where
  "normalizeJsonText rt input =
     stripAnnotations
       (rewriteMultiplications rt (replaceClass isControl (removeTrailingCommas input)))"

subsection \<open>The shapes the two rewrites match\<close>


definition spaces :: "jsstring \<Rightarrow> bool" where
  "spaces w \<longleftrightarrow> list_all isSpace w"


lemma takeWhile_all: "list_all P xs \<Longrightarrow> (case ys of [] \<Rightarrow> True | y # _ \<Rightarrow> \<not> P y) \<Longrightarrow>
    takeWhile P (xs @ ys) = xs \<and> dropWhile P (xs @ ys) = ys"
  by (induction xs) (auto split: list.splits)






lemma dropWhile_spaces: "spaces w \<Longrightarrow> (case ys of [] \<Rightarrow> True | y # _ \<Rightarrow> \<not> isSpace y) \<Longrightarrow>
    dropWhile isSpace (w @ ys) = ys"
  using takeWhile_all [of isSpace w ys] by (simp add: spaces_def)

lemma spaces_split: "\<exists>w. spaces w \<and> cs = w @ dropWhile isSpace cs"
proof -
  have "spaces (takeWhile isSpace cs)"
    by (auto simp: spaces_def list_all_iff dest: set_takeWhileD)
  then show ?thesis by (metis takeWhile_dropWhile_id)
qed




lemma mathRound_of_int: "mathRound (Finite (of_int k)) = Finite (of_int k)"
proof -
  have "\<lfloor>rat_of_int k + 1 / 2\<rfloor> = k" by (simp add: floor_unique)
  then show ?thesis by simp
qed

text \<open>
  For two strings of digits whose values and whose product stay below \<open>2^53\<close> the replacement
  is the product, in decimal digits.
\<close>

lemma productText_exact:
  assumes "a \<noteq> []" "list_all isDigit a" "b \<noteq> []" "list_all isDigit b"
    and "digitsValue a < 2 ^ 53" "digitsValue b < 2 ^ 53" "digitsValue a * digitsValue b < 2 ^ 53"
  shows "productText rt a b = decimal (digitsValue a * digitsValue b)"
proof -
  define p where "p = digitsValue a * digitsValue b"
  define q where "q = rat_of_int (int p)"
  have a: "strToNum rt a = Finite (of_nat (digitsValue a))"
    and b: "strToNum rt b = Finite (of_nat (digitsValue b))"
    using assms by (simp_all add: strToNum_def)
  have prod: "rat_of_nat (digitsValue a) * rat_of_nat (digitsValue b) = q"
    by (simp add: q_def p_def)
  have "int p < 2 ^ 53" using assms(7) unfolding p_def
    by (metis of_nat_less_iff of_nat_numeral of_nat_power)
  then have lt: "q < 2 ^ 53" unfolding q_def
    by (metis of_int_less_iff of_int_numeral of_int_power)
  have q: "rat_of_int \<lfloor>q\<rfloor> = q" "\<not> q < 0" "\<bar>q\<bar> = q" "nat \<bar>\<lfloor>q\<rfloor>\<bar> = p"
    by (simp_all add: q_def)
  have mul: "jsMultiply rt (Finite (of_nat (digitsValue a))) (Finite (of_nat (digitsValue b))) =
      Finite q"
    using lt q by (simp add: jsMultiply_def prod)
  have "productText rt a b = numToStr rt (mathRound (Finite q))"
    unfolding productText_def a b mul by (simp add: Let_def)
  also have "\<dots> = numToStr rt (Finite q)"
    unfolding q_def by (simp only: mathRound_of_int)
  also have "\<dots> = decimal p"
    using lt q by (simp add: numToStr_def)
  finally show ?thesis by (simp add: p_def)
qed

lemma productText_230_6: "productText rt (js ''230'') (js ''6'') = js ''1380''"
proof -
  have "productText rt (js ''230'') (js ''6'') =
      decimal (digitsValue (js ''230'') * digitsValue (js ''6''))"
    by (rule productText_exact) (simp_all add: js_def isDigit_def digitsValue_def)
  also have "\<dots> = js ''1380''"
    by (simp add: js_def digitsValue_def decimal.simps)
  finally show ?thesis .
qed

lemmas normalize_eval =
  normalizeJsonText_def js_def isSpace_def isDigit_def isCloser_def isControl_def
  isSeparator_def separatorAhead_def matchNumber_def matchMultiplication_def
  matchAnnotation_def Let_def

subsection \<open>What the normalizer rewrites\<close>


































text \<open>
  The expressions name the line feed among the separators, but no line feed is left when
  they are tried: a product followed by a line feed and no comma stays.
\<close>

lemma line_feed_is_removed:
  \<open>normalizeJsonText rt (js ''{"a": 230 * 6'' @ [0x0A] @ js ''"b": 2}'') =
     js ''{"a": 230 * 6"b": 2}''\<close>
  by (simp add: normalize_eval)

subsection \<open>\<open>JSON.parse\<close>\<close>

text \<open>
  \<open>JSON.parse\<close> is the engine's. It is modelled by the JSON grammar (ECMA-404): a lexer that
  cuts the text into tokens, and a parser of the token list. White space between tokens is
  space, tab, line feed and carriage return only. A text outside the grammar throws a
  \<open>SyntaxError\<close>, whose message is the runtime's.
\<close>

datatype token =
    TLBrace | TRBrace | TLBracket | TRBracket | TComma | TColon
  | TString jsstring
  | TNumber jsstring
  | TTrue | TFalse | TNull

definition isJsonSpace :: "nat \<Rightarrow> bool" where
  "isJsonSpace c \<longleftrightarrow> c = 0x20 \<or> c = 0x09 \<or> c = 0x0A \<or> c = 0x0D"

text \<open>The value of a hexadecimal digit, and of the four digits of a \<open>\uXXXX\<close> escape.\<close>

definition hexValue :: "nat \<Rightarrow> nat" where
  "hexValue c = (if isDigit c then c - 0x30 else if 0x61 \<le> c then c - 0x61 + 10 else c - 0x41 + 10)"

definition hex4 :: "jsstring \<Rightarrow> (nat \<times> jsstring) option" where
  "hex4 cs =
     (if length cs \<ge> 4 \<and> list_all isHex (take 4 cs)
      then Some (foldl (\<lambda>acc c. 16 * acc + hexValue c) 0 (take 4 cs), drop 4 cs)
      else None)"

text \<open>The code unit of a one-letter escape: \<open>\"\<close>, \<open>\\\<close>, \<open>\/\<close>, \<open>\b\<close>, \<open>\f\<close>, \<open>\n\<close>, \<open>\r\<close>, \<open>\t\<close>.\<close>

definition unescape :: "nat \<Rightarrow> nat option" where
  "unescape e =
     (if e = 0x22 \<or> e = 0x5C \<or> e = 0x2F then Some e
      else if e = 0x62 then Some 0x08
      else if e = 0x66 then Some 0x0C
      else if e = 0x6E then Some 0x0A
      else if e = 0x72 then Some 0x0D
      else if e = 0x74 then Some 0x09
      else None)"

text \<open>
  A string after its opening quote: its code units, escapes decoded, and the text after the
  closing quote. A code unit below \<open>0x20\<close> may not stand in a string.
\<close>

function lexString :: "jsstring \<Rightarrow> (jsstring \<times> jsstring) option" where
  "lexString [] = None"
| "lexString (c # cs) =
     (if c = 0x22 then Some ([], cs)
      else if c = 0x5C then
        (case cs of
           [] \<Rightarrow> None
         | e # cs' \<Rightarrow>
             if e = 0x75 then
               (case hex4 cs' of
                  None \<Rightarrow> None
                | Some (u, cs'') \<Rightarrow> map_option (\<lambda>(s, r). (u # s, r)) (lexString cs''))
             else
               (case unescape e of
                  None \<Rightarrow> None
                | Some u \<Rightarrow> map_option (\<lambda>(s, r). (u # s, r)) (lexString cs')))
      else if c < 0x20 then None
      else map_option (\<lambda>(s, r). (c # s, r)) (lexString cs))"
  by pat_completeness auto
termination
  by (relation "measure length") (auto simp: hex4_def split: if_splits)

text \<open>
  A number: an optional minus, \<open>0\<close> or a digit from 1 to 9 and digits, an optional fraction and
  an optional exponent. The token is the text of the number and what follows it.
\<close>

definition lexFraction :: "jsstring \<Rightarrow> jsstring \<times> jsstring" where
  "lexFraction cs =
     (case cs of
        c # r \<Rightarrow>
          if c = 0x2E \<and> takeWhile isDigit r \<noteq> []
          then (c # takeWhile isDigit r, dropWhile isDigit r) else ([], cs)
      | [] \<Rightarrow> ([], cs))"

definition lexExponent :: "jsstring \<Rightarrow> jsstring \<times> jsstring" where
  "lexExponent cs =
     (case cs of
        c # r \<Rightarrow>
          if c = 0x65 \<or> c = 0x45 then
            (case r of
               s # r' \<Rightarrow>
                 if (s = 0x2B \<or> s = 0x2D) \<and> takeWhile isDigit r' \<noteq> []
                 then (c # s # takeWhile isDigit r', dropWhile isDigit r')
                 else if takeWhile isDigit r \<noteq> []
                 then (c # takeWhile isDigit r, dropWhile isDigit r)
                 else ([], cs)
             | [] \<Rightarrow> ([], cs))
          else ([], cs)
      | [] \<Rightarrow> ([], cs))"

definition lexInteger :: "jsstring \<Rightarrow> (jsstring \<times> jsstring) option" where
  "lexInteger cs =
     (case cs of
        c # r \<Rightarrow>
          if c = 0x30 then Some ([c], r)
          else if isDigit c then Some (c # takeWhile isDigit r, dropWhile isDigit r)
          else None
      | [] \<Rightarrow> None)"

definition lexNumber :: "jsstring \<Rightarrow> (jsstring \<times> jsstring) option" where
  "lexNumber cs =
     (let (sign, r0) = (case cs of c # r \<Rightarrow> if c = 0x2D then ([c], r) else ([], cs) | [] \<Rightarrow> ([], cs))
      in case lexInteger r0 of
           None \<Rightarrow> None
         | Some (i, r1) \<Rightarrow>
             (let (f, r2) = lexFraction r1; (e, r3) = lexExponent r2
              in Some (sign @ i @ f @ e, r3)))"

lemma lexString_step:
  assumes "lexString (c # cs) = Some (s, r)"
  shows "r = cs \<or> (\<exists>cs2 s2. length cs2 \<le> length cs \<and> lexString cs2 = Some (s2, r))"
proof (cases "c = 0x22")
  case True
  with assms show ?thesis by simp
next
  case quote: False
  show ?thesis
  proof (cases "c = 0x5C")
    case False
    with quote assms obtain s2 where "lexString cs = Some (s2, r)"
      by (auto split: if_splits)
    then show ?thesis by blast
  next
    case True
    with quote assms obtain e cs' where cs: "cs = e # cs'"
      by (cases cs) auto
    show ?thesis
    proof (cases "e = 0x75")
      case True
      with quote \<open>c = 0x5C\<close> cs assms obtain v cs'' s2 where
        h: "hex4 cs' = Some (v, cs'')" and l: "lexString cs'' = Some (s2, r)"
        by (auto split: option.splits)
      from h have "length cs'' \<le> length cs" by (auto simp: cs hex4_def split: if_splits)
      with l show ?thesis by blast
    next
      case False
      with quote \<open>c = 0x5C\<close> cs assms obtain s2 where "lexString cs' = Some (s2, r)"
        by (auto split: option.splits)
      then show ?thesis using cs by (metis length_Cons le_SucI order_refl)
    qed
  qed
qed

lemma lexString_length: "lexString cs = Some (s, r) \<Longrightarrow> length r \<le> length cs"
proof (induction "length cs" arbitrary: cs s r rule: less_induct)
  case less
  show ?case
  proof (cases cs)
    case Nil
    with less.prems show ?thesis by simp
  next
    case (Cons c cs1)
    from lexString_step [OF less.prems [unfolded Cons]] show ?thesis
    proof
      assume "r = cs1"
      then show ?thesis by (simp add: Cons)
    next
      assume "\<exists>cs2 s2. length cs2 \<le> length cs1 \<and> lexString cs2 = Some (s2, r)"
      then obtain cs2 s2 where le: "length cs2 \<le> length cs1" and l: "lexString cs2 = Some (s2, r)"
        by blast
      have "length r \<le> length cs2"
        using less.hyps [OF _ l] le by (simp add: Cons)
      then show ?thesis using le by (simp add: Cons)
    qed
  qed
qed

lemma lexFraction_length: "lexFraction cs = (f, r) \<Longrightarrow> length r \<le> length cs"
  by (auto simp: lexFraction_def split: list.splits if_splits
      intro: le_trans [OF length_dropWhile_le])

lemma lexExponent_length: "lexExponent cs = (e, r) \<Longrightarrow> length r \<le> length cs"
  by (auto simp: lexExponent_def split: list.splits if_splits
      intro: le_trans [OF length_dropWhile_le])

lemma lexInteger_length: "lexInteger cs = Some (i, r) \<Longrightarrow> length r < length cs"
  by (auto simp: lexInteger_def less_Suc_eq_le length_dropWhile_le split: list.splits if_splits)

lemma lexNumber_length:
  assumes "lexNumber cs = Some (lit, r)"
  shows "length r < length cs"
proof -
  obtain sign r0 where s: "(case cs of c # r \<Rightarrow> if c = 0x2D then ([c], r) else ([], cs)
      | [] \<Rightarrow> ([], cs)) = (sign, r0)"
    by (cases "case cs of c # r \<Rightarrow> if c = 0x2D then ([c], r) else ([], cs) | [] \<Rightarrow> ([], cs)") blast
  then have r0: "length r0 \<le> length cs"
    by (auto split: list.splits if_splits)
  from assms s obtain i r1 f r2 e where
    i: "lexInteger r0 = Some (i, r1)" and f: "lexFraction r1 = (f, r2)"
    and e: "lexExponent r2 = (e, r)"
    by (auto simp: lexNumber_def Let_def split: option.splits prod.splits)
  have "length r \<le> length r2" using e by (rule lexExponent_length)
  also have "\<dots> \<le> length r1" using f by (rule lexFraction_length)
  also have "\<dots> < length r0" using i by (rule lexInteger_length)
  finally show ?thesis using r0 by simp
qed

text \<open>The lexer. \<open>None\<close> when the text does not cut into tokens.\<close>

function lexJson :: "jsstring \<Rightarrow> token list option" where
  "lexJson [] = Some []"
| "lexJson (c # cs) =
     (if isJsonSpace c then lexJson cs
      else if c = 0x7B then map_option (Cons TLBrace) (lexJson cs)
      else if c = 0x7D then map_option (Cons TRBrace) (lexJson cs)
      else if c = 0x5B then map_option (Cons TLBracket) (lexJson cs)
      else if c = 0x5D then map_option (Cons TRBracket) (lexJson cs)
      else if c = 0x2C then map_option (Cons TComma) (lexJson cs)
      else if c = 0x3A then map_option (Cons TColon) (lexJson cs)
      else if c = 0x22 then
        (case lexString cs of
           None \<Rightarrow> None
         | Some (s, r) \<Rightarrow> map_option (Cons (TString s)) (lexJson r))
      else if c = 0x2D \<or> isDigit c then
        (case lexNumber (c # cs) of
           None \<Rightarrow> None
         | Some (lit, r) \<Rightarrow> map_option (Cons (TNumber lit)) (lexJson r))
      else if take 4 (c # cs) = js ''true'' then map_option (Cons TTrue) (lexJson (drop 3 cs))
      else if take 5 (c # cs) = js ''false'' then map_option (Cons TFalse) (lexJson (drop 4 cs))
      else if take 4 (c # cs) = js ''null'' then map_option (Cons TNull) (lexJson (drop 3 cs))
      else None)"
  by pat_completeness auto
termination
proof (relation "measure length", goal_cases)
  case (9 c cs x2 s r)
  then have "lexString cs = Some (s, r)" by simp
  then show ?case using lexString_length by fastforce
next
  case (10 c cs x2 lit r)
  then have "lexNumber (c # cs) = Some (lit, r)" by simp
  then show ?case using lexNumber_length by fastforce
qed auto

text \<open>
  The number a token stands for. Digits with an optional minus, below \<open>2^53\<close>, are that
  integer; any other literal is rounded to a double by the runtime.
\<close>

definition numberOfLiteral :: "runtime \<Rightarrow> jsstring \<Rightarrow> jsnum" where
  "numberOfLiteral rt lit =
     (case lit of
        c # ds \<Rightarrow>
          if c = 0x2D \<and> ds \<noteq> [] \<and> list_all isDigit ds \<and> digitsValue ds < 2 ^ 53
          then Finite (- of_nat (digitsValue ds)) else strToNum rt lit
      | [] \<Rightarrow> strToNum rt lit)"

text \<open>
  The parser reads the tokens from the left and keeps the containers that are open: an
  array with the elements read so far, an object with its members and the key whose value is
  awaited. A key that comes again replaces the value of the member.
\<close>

datatype frame = FArr "json list" | FObj "(jsstring \<times> json) list" "jsstring option"

datatype phase = PValue | PValueOrClose | PKeyOrClose | PKey | PColon | PAfter | PDone json

fun setMember :: "jsstring \<Rightarrow> json \<Rightarrow> (jsstring \<times> json) list \<Rightarrow> (jsstring \<times> json) list" where
  "setMember k v [] = [(k, v)]"
| "setMember k v (p # ps) = (if fst p = k then (k, v) # ps else p # setMember k v ps)"

fun complete :: "json \<Rightarrow> frame list \<Rightarrow> (frame list \<times> phase) option" where
  "complete v [] = Some ([], PDone v)"
| "complete v (FArr xs # st) = Some (FArr (xs @ [v]) # st, PAfter)"
| "complete v (FObj kvs (Some k) # st) = Some (FObj (setMember k v kvs) None # st, PAfter)"
| "complete v (FObj kvs None # st) = None"

fun scalar :: "runtime \<Rightarrow> token \<Rightarrow> json option" where
  "scalar rt (TString s) = Some (JStr s)"
| "scalar rt (TNumber lit) = Some (JNum (numberOfLiteral rt lit))"
| "scalar rt TTrue = Some (JBool True)"
| "scalar rt TFalse = Some (JBool False)"
| "scalar rt TNull = Some JNull"
| "scalar rt _ = None"

fun startValue :: "runtime \<Rightarrow> frame list \<Rightarrow> token \<Rightarrow> (frame list \<times> phase) option" where
  "startValue rt st TLBracket = Some (FArr [] # st, PValueOrClose)"
| "startValue rt st TLBrace = Some (FObj [] None # st, PKeyOrClose)"
| "startValue rt st tok = (case scalar rt tok of None \<Rightarrow> None | Some v \<Rightarrow> complete v st)"

fun closeArray :: "frame list \<Rightarrow> (frame list \<times> phase) option" where
  "closeArray (FArr xs # st) = complete (JArr xs) st"
| "closeArray _ = None"

fun closeObject :: "frame list \<Rightarrow> (frame list \<times> phase) option" where
  "closeObject (FObj kvs None # st) = complete (JObj kvs) st"
| "closeObject _ = None"

fun readKey :: "frame list \<Rightarrow> token \<Rightarrow> (frame list \<times> phase) option" where
  "readKey (FObj kvs None # st) (TString k) = Some (FObj kvs (Some k) # st, PColon)"
| "readKey _ _ = None"

fun afterValue :: "frame list \<Rightarrow> token \<Rightarrow> (frame list \<times> phase) option" where
  "afterValue (FArr xs # st) TComma = Some (FArr xs # st, PValue)"
| "afterValue (FObj kvs k # st) TComma = Some (FObj kvs k # st, PKey)"
| "afterValue st TRBracket = closeArray st"
| "afterValue st TRBrace = closeObject st"
| "afterValue _ _ = None"

fun step :: "runtime \<Rightarrow> frame list \<times> phase \<Rightarrow> token \<Rightarrow> (frame list \<times> phase) option" where
  "step rt (st, PValue) tok = startValue rt st tok"
| "step rt (st, PValueOrClose) tok = (if tok = TRBracket then closeArray st else startValue rt st tok)"
| "step rt (st, PKeyOrClose) tok = (if tok = TRBrace then closeObject st else readKey st tok)"
| "step rt (st, PKey) tok = readKey st tok"
| "step rt (st, PColon) tok = (if tok = TColon then Some (st, PValue) else None)"
| "step rt (st, PAfter) tok = afterValue st tok"
| "step rt (st, PDone v) tok = None"

fun parseFrom :: "runtime \<Rightarrow> frame list \<times> phase \<Rightarrow> token list \<Rightarrow> (frame list \<times> phase) option" where
  "parseFrom rt state [] = Some state"
| "parseFrom rt state (tok # toks) =
     (case step rt state tok of None \<Rightarrow> None | Some state' \<Rightarrow> parseFrom rt state' toks)"

definition parseTokens :: "runtime \<Rightarrow> token list \<Rightarrow> json option" where
  "parseTokens rt toks =
     (case parseFrom rt ([], PValue) toks of
        Some ([], PDone v) \<Rightarrow> Some v
      | _ \<Rightarrow> None)"

definition JSON_parse :: "runtime \<Rightarrow> jsstring \<Rightarrow> jserror + json" where
  "JSON_parse rt text =
     (case lexJson text of
        None \<Rightarrow> Inl (SyntaxError (syntaxErrorMessage rt text))
      | Some toks \<Rightarrow>
          (case parseTokens rt toks of
             None \<Rightarrow> Inl (SyntaxError (syntaxErrorMessage rt text))
           | Some v \<Rightarrow> Inr v))"

subsection \<open>\<open>extractJsonCandidate\<close>\<close>

text \<open>
  \<^verbatim>\<open>
  function extractJsonCandidate(text: string): string {
    const cleaned = text.trim().replace(/```json\s*/gi, '').replace(/```\s*/g, '').trim();
    const start = cleaned.indexOf('{');
    const end = cleaned.lastIndexOf('}');
    if (start === -1 || end === -1 || end <= start) {
      throw new Error('No JSON object found in AI response');
    }
    return cleaned.slice(start, end + 1);
  }
  \<close>
  With the flag \<open>i\<close> and without the flag \<open>u\<close> a letter of \<open>json\<close> matches itself and its capital.
\<close>

definition asciiLower :: "nat \<Rightarrow> nat" where
  "asciiLower c = (if 0x41 \<le> c \<and> c \<le> 0x5A then c + 0x20 else c)"

definition startsWith :: "jsstring \<Rightarrow> jsstring \<Rightarrow> bool" where
  "startsWith p s \<longleftrightarrow> take (length p) s = p"

function stripJsonFences :: "jsstring \<Rightarrow> jsstring" where
  "stripJsonFences [] = []"
| "stripJsonFences (c # cs) =
     (if startsWith (js ''```'') (c # cs) \<and> map asciiLower (take 4 (drop 2 cs)) = js ''json''
      then stripJsonFences (dropWhile isSpace (drop 6 cs))
      else c # stripJsonFences cs)"
  by pat_completeness auto
termination
  by (relation "measure length")
    (auto intro!: le_imp_less_Suc le_trans [OF length_dropWhile_le])

function stripFences :: "jsstring \<Rightarrow> jsstring" where
  "stripFences [] = []"
| "stripFences (c # cs) =
     (if startsWith (js ''```'') (c # cs)
      then stripFences (dropWhile isSpace (drop 2 cs))
      else c # stripFences cs)"
  by pat_completeness auto
termination
  by (relation "measure length")
    (auto intro!: le_imp_less_Suc le_trans [OF length_dropWhile_le])

text \<open>\<open>indexOf\<close> and \<open>lastIndexOf\<close> of one code unit: \<open>-1\<close> when it does not occur.\<close>

definition indexOf :: "nat \<Rightarrow> jsstring \<Rightarrow> int" where
  "indexOf c s = (if c \<in> set s then int (length (takeWhile (\<lambda>x. x \<noteq> c) s)) else -1)"

definition lastIndexOf :: "nat \<Rightarrow> jsstring \<Rightarrow> int" where
  "lastIndexOf c s =
     (if c \<in> set s then int (length s) - 1 - int (length (takeWhile (\<lambda>x. x \<noteq> c) (rev s)))
      else -1)"

definition extractJsonCandidate :: "jsstring \<Rightarrow> jserror + jsstring" where
  "extractJsonCandidate text =
     (let cleaned = trim (stripFences (stripJsonFences (trim text)));
          start = indexOf 0x7B cleaned;
          end = lastIndexOf 0x7D cleaned
      in if start = -1 \<or> end = -1 \<or> end \<le> start
         then Inl (Error (js ''No JSON object found in AI response''))
         else Inr (take (nat (end + 1 - start)) (drop (nat start) cleaned)))"

text \<open>The three steps of a parse attempt: extract, normalize, \<open>JSON.parse\<close>.\<close>

definition parseItinerary :: "runtime \<Rightarrow> jsstring \<Rightarrow> jserror + json" where
  "parseItinerary rt content =
     (case extractJsonCandidate content of
        Inl e \<Rightarrow> Inl e
      | Inr jsonText \<Rightarrow> JSON_parse rt (normalizeJsonText rt jsonText))"

subsection \<open>The world of the handler\<close>

text \<open>
  The handler talks to three services. Their answers are not the handler's to decide, so
  they are given with the world in which a request is served:
  \<^item> the identity service: the user a bearer token stands for, if any;
  \<^item> the store: the table \<open>trips\<close> when the handler looks the trip up, the rows of it that
    the row-level policy for \<open>SELECT\<close> lets a user see, the table when the handler's write
    arrives (other sessions may have changed it in between), and whether the look-up or the
    write fails in the store or on the way;
  \<^item> the completion gateway: its HTTP reply to the planning request, and to a repair
    request, which quotes the raw content.
  The prompt of the planning request is not modelled: no claim reads it, and the gateway's
  reply is free anyway.
\<close>

record trip_row =
  row_id :: jsstring
  row_user_id :: jsstring
  row_ai_itinerary :: "json option"
  row_status :: jsstring

datatype http_reply = FetchFailed jsstring | Reply nat jsstring

record world =
  supabase_configured :: bool
  lovable_api_key :: "jsstring option"
  getUser :: "jsstring \<Rightarrow> jsstring option"
  trips :: "trip_row list"
  select_policy :: "jsstring \<Rightarrow> trip_row \<Rightarrow> bool"
  select_error :: bool
  completion_reply :: http_reply
  repair_reply :: "jsstring \<Rightarrow> http_reply"
  trips_at_write :: "trip_row list"
  update_error :: "jsstring option"

record request =
  req_method :: jsstring
  req_authorization :: "jsstring option"
  req_json :: "jserror + json"

record response =
  resp_status :: nat
  resp_body :: "json option"

text \<open>
  What the handler does besides answering: the requests it sends to the gateway, and the
  update it sends to the store.
\<close>

datatype gateway_request = Completion | Repair jsstring

record trip_update =
  upd_id :: jsstring
  upd_user_id :: jsstring
  upd_ai_itinerary :: json
  upd_status :: jsstring

record outcome =
  out_response :: response
  out_requests :: "gateway_request list"
  out_update :: "trip_update option"
  out_trips :: "trip_row list"

subsection \<open>The store\<close>

text \<open>
  The column \<open>id\<close> is a \<open>uuid\<close>, which the store compares without regard to the case of the
  hexadecimal digits.

  The look-up \<open>from('trips').select('user_id').eq('id', tripId).single()\<close> goes through the
  client that carries the caller's token, so it returns rows that the row-level policy lets
  the caller see. \<open>single()\<close> is an error unless exactly one row comes back.

  The policy of the repository's migration is
  \<^verbatim>\<open>
  CREATE POLICY "Users can view their own trips" ON public.trips
  FOR SELECT USING (auth.uid() = user_id);
  \<close>
\<close>

definition sameUuid :: "jsstring \<Rightarrow> jsstring \<Rightarrow> bool" where
  "sameUuid a b \<longleftrightarrow> map asciiLower a = map asciiLower b"

definition ownTripsPolicy :: "jsstring \<Rightarrow> trip_row \<Rightarrow> bool" where
  "ownTripsPolicy uid r \<longleftrightarrow> uid = row_user_id r"

definition selectTrip :: "world \<Rightarrow> jsstring \<Rightarrow> jsstring \<Rightarrow> trip_row option" where
  "selectTrip w uid tid =
     (if select_error w then None
      else case filter (\<lambda>r. select_policy w uid r \<and> sameUuid (row_id r) tid) (trips w) of
             [r] \<Rightarrow> Some r
           | _ \<Rightarrow> None)"

text \<open>
  The update goes through the service-role client, which no policy restricts:
  \<open>update({ai_itinerary, status}).eq('id', tripId).eq('user_id', user.id)\<close>. It changes the
  rows that match both filters, which may be none, and an update of no row is not an error
  of the store.
\<close>

definition matches :: "trip_update \<Rightarrow> trip_row \<Rightarrow> bool" where
  "matches u r \<longleftrightarrow> sameUuid (row_id r) (upd_id u) \<and> row_user_id r = upd_user_id u"

definition applyUpdate :: "trip_update \<Rightarrow> trip_row list \<Rightarrow> trip_row list" where
  "applyUpdate u rows =
     map (\<lambda>r. if matches u r
               then r\<lparr> row_ai_itinerary := Some (upd_ai_itinerary u), row_status := upd_status u \<rparr>
               else r) rows"

definition affectedRows :: "trip_update \<Rightarrow> trip_row list \<Rightarrow> nat" where
  "affectedRows u rows = length (filter (matches u) rows)"

subsection \<open>Reading the gateway's answer\<close>

text \<open>
  \<open>x.name\<close> throws a \<open>TypeError\<close> on \<open>null\<close>; \<open>x?.name\<close> and \<open>x?.[0]\<close> are \<open>undefined\<close> on \<open>null\<close> and
  on \<open>undefined\<close>.
\<close>

definition getMember :: "json \<Rightarrow> jsstring \<Rightarrow> jserror + json option" where
  "getMember x name =
     (if x = JNull
      then Inl (TypeError (js ''Cannot read properties of null (reading '' @ [0x27] @ name @
                           [0x27] @ js '')''))
      else Inr (getProp x name))"

fun optProp :: "json option \<Rightarrow> jsstring \<Rightarrow> json option" where
  "optProp None name = None"
| "optProp (Some JNull) name = None"
| "optProp (Some x) name = getProp x name"

fun optIndex0 :: "json option \<Rightarrow> json option" where
  "optIndex0 (Some (JArr (x # xs))) = Some x"
| "optIndex0 (Some (JStr (c # cs))) = Some (JStr [c])"
| "optIndex0 (Some (JObj kvs)) = map_of kvs (js ''0'')"
| "optIndex0 _ = None"

text \<open>\<open>a || b\<close> on values: \<open>a\<close> when it is truthy.\<close>

fun orElse :: "json option \<Rightarrow> json \<Rightarrow> json" where
  "orElse None d = d"
| "orElse (Some v) d = (if truthy v then v else d)"

text \<open>\<open>s.includes(p)\<close>\<close>

fun includesStr :: "jsstring \<Rightarrow> jsstring \<Rightarrow> bool" where
  "includesStr p [] = (p = [])"
| "includesStr p (c # cs) = (startsWith p (c # cs) \<or> includesStr p cs)"

text \<open>\<open>s.replace(p, '')\<close> for a string \<open>p\<close>: the first occurrence goes.\<close>

fun removeFirst :: "jsstring \<Rightarrow> jsstring \<Rightarrow> jsstring" where
  "removeFirst p [] = []"
| "removeFirst p (c # cs) =
     (if startsWith p (c # cs) then drop (length p) (c # cs) else c # removeFirst p cs)"

text \<open>
  \<^verbatim>\<open>
  async function callLovableAi(messages, apiKey) {
    const response = await fetch('https://ai.gateway.lovable.dev/v1/chat/completions', ...);
    const text = await response.text();
    if (!response.ok) {
      throw new Error(`Lovable AI error: ${response.status}`);
    }
    try { return JSON.parse(text); }
    catch (_e) { throw new Error('Lovable AI gateway returned non-JSON response'); }
  }
  \<close>
\<close>

definition callLovableAi :: "runtime \<Rightarrow> http_reply \<Rightarrow> jserror + json" where
  "callLovableAi rt reply =
     (case reply of
        FetchFailed m \<Rightarrow> Inl (TypeError m)
      | Reply status text \<Rightarrow>
          if \<not> (200 \<le> status \<and> status \<le> 299)
          then Inl (Error (js ''Lovable AI error: '' @ decimal status))
          else (case JSON_parse rt text of
                  Inl e \<Rightarrow> Inl (Error (js ''Lovable AI gateway returned non-JSON response''))
                | Inr v \<Rightarrow> Inr v))"

text \<open>
  \<^verbatim>\<open>
  async function repairJsonWithAi(rawContent: string, apiKey: string): Promise<string> {
    const repairPrompt = `... Here is the broken JSON to fix (verbatim):\n\n${rawContent}`;
    const repaired = await callLovableAi([{ role: 'user', content: repairPrompt }], apiKey);
    const content = (repaired as any).choices?.[0]?.message?.content;
    if (!content || typeof content !== 'string') {
      throw new Error('No content found in AI repair response');
    }
    return content;
  }
  \<close>
\<close>

definition repairJsonWithAi :: "runtime \<Rightarrow> world \<Rightarrow> jsstring \<Rightarrow> jserror + jsstring" where
  "repairJsonWithAi rt w rawContent =
     (case callLovableAi rt (repair_reply w rawContent) of
        Inl e \<Rightarrow> Inl e
      | Inr repaired \<Rightarrow>
          (case getMember repaired (js ''choices'') of
             Inl e \<Rightarrow> Inl e
           | Inr choices \<Rightarrow>
               (let content = optProp (optProp (optIndex0 choices) (js ''message'')) (js ''content'')
                in if \<not> truthyO content then Inl (Error (js ''No content found in AI repair response''))
                   else if \<not> isStringO content
                     then Inl (Error (js ''No content found in AI repair response''))
                   else Inr (toStrO rt content))))"

subsection \<open>The first pass\<close>

text \<open>
  The \<open>try\<close> block that reads the completion. It may assign \<open>rawContent\<close> before it throws, so
  the model returns \<open>rawContent\<close> (\<open>None\<close> while it is \<open>null\<close>) next to the itinerary or the
  error thrown.

  The block that looks for a rate limit in the metadata of a choice error is
  \<^verbatim>\<open>
  try {
    const parsed = JSON.parse(rawMetadata);
    if (parsed.error?.status === 'RESOURCE_EXHAUSTED' || parsed.error?.code === 429) {
      throw new Error('AI service is temporarily busy. Please try again in a few minutes.');
    }
  } catch (e) {
    // Ignore parse errors for metadata
  }
  \<close>
  Its \<open>catch\<close> catches what its \<open>try\<close> throws, the rate-limit error too: whatever
  \<open>checkRateLimit\<close> returns, the handler goes on to the next statement.
\<close>

definition checkRateLimit :: "runtime \<Rightarrow> json \<Rightarrow> jserror + unit" where
  "checkRateLimit rt rawMetadata =
     (case JSON_parse rt (toStr rt rawMetadata) of
        Inl e \<Rightarrow> Inl e
      | Inr parsed \<Rightarrow>
          (case getMember parsed (js ''error'') of
             Inl e \<Rightarrow> Inl e
           | Inr err \<Rightarrow>
               if optProp err (js ''status'') = Some (JStr (js ''RESOURCE_EXHAUSTED'')) \<or>
                  optProp err (js ''code'') = Some (JNum (Finite 429))
               then Inl (Error (js ''AI service is temporarily busy. Please try again in a few minutes.''))
               else Inr ()))"

definition ignoreErrors :: "jserror + unit \<Rightarrow> unit" where
  "ignoreErrors r = (case r of Inl e \<Rightarrow> () | Inr u \<Rightarrow> u)"

definition firstPass :: "runtime \<Rightarrow> json \<Rightarrow> json option \<times> (jserror + json)" where
  "firstPass rt data =
     (case getMember data (js ''error'') of
        Inl e \<Rightarrow> (None, Inl e)
      | Inr dataError \<Rightarrow>
          if truthyO dataError
          then (None, Inl (Error (toStr rt (orElse (optProp dataError (js ''message''))
                                              (JStr (js ''Lovable AI internal error''))))))
          else
            (let choiceError = optProp (optIndex0 (getProp data (js ''choices''))) (js ''error'')
             in if truthyO choiceError
                then
                  (let rawMetadata = optProp (optProp choiceError (js ''metadata'')) (js ''raw'');
                       u = (case rawMetadata of
                              None \<Rightarrow> ()
                            | Some m \<Rightarrow> if truthy m then ignoreErrors (checkRateLimit rt m) else ())
                   in (None, Inl (Error (toStr rt (orElse (optProp choiceError (js ''message''))
                                   (JStr (js ''AI service error. Please try again.'')))))))
                else
                  (let rawContent =
                         optProp (optProp (optIndex0 (getProp data (js ''choices''))) (js ''message''))
                           (js ''content'')
                   in if \<not> truthyO rawContent
                        then (rawContent, Inl (Error (js ''No content found in AI response'')))
                      else if \<not> isStringO rawContent
                        then (rawContent, Inl (Error (js ''No content found in AI response'')))
                      else (rawContent, parseItinerary rt (toStrO rt rawContent)))))"

subsection \<open>The second pass\<close>

text \<open>
  \<^verbatim>\<open>
  try {
    if (!rawContent) throw new Error('Missing rawContent for repair');
    const repairedContent = await repairJsonWithAi(rawContent, LOVABLE_API_KEY);
    let repairedJsonText = extractJsonCandidate(repairedContent);
    repairedJsonText = normalizeJsonText(repairedJsonText);
    itinerary = JSON.parse(repairedJsonText);
  } catch (repairError) {
    itinerary = {
      error: 'AI returned an invalid itinerary format. Please tap Generate/Regenerate Itinerary to try again.',
      rawContent: rawContent || null,
    };
  }
  \<close>
  The model returns the itinerary and whether the repair request was sent.
\<close>

definition repairAttempt :: "runtime \<Rightarrow> world \<Rightarrow> json option \<Rightarrow> jserror + json" where
  "repairAttempt rt w rawContent =
     (if \<not> truthyO rawContent then Inl (Error (js ''Missing rawContent for repair''))
      else case repairJsonWithAi rt w (toStrO rt rawContent) of
             Inl e \<Rightarrow> Inl e
           | Inr repairedContent \<Rightarrow> parseItinerary rt repairedContent)"

definition placeholderMessage :: jsstring where
  "placeholderMessage =
     js ''AI returned an invalid itinerary format. Please tap Generate/Regenerate Itinerary to try again.''"

definition placeholder :: "json option \<Rightarrow> json" where
  "placeholder rawContent =
     JObj [(js ''error'', JStr placeholderMessage),
           (js ''rawContent'', orElse rawContent JNull)]"

definition secondPass :: "runtime \<Rightarrow> world \<Rightarrow> json option \<Rightarrow> json \<times> gateway_request list" where
  "secondPass rt w rawContent =
     (case repairAttempt rt w rawContent of
        Inl e \<Rightarrow> placeholder rawContent
      | Inr itinerary \<Rightarrow> itinerary,
      if truthyO rawContent then [Repair (toStrO rt rawContent)] else [])"

subsection \<open>The handler\<close>

definition jsonResponse :: "nat \<Rightarrow> json \<Rightarrow> response" where
  "jsonResponse status body = \<lparr> resp_status = status, resp_body = Some body \<rparr>"

definition errorResponse :: "nat \<Rightarrow> jsstring \<Rightarrow> response" where
  "errorResponse status msg = jsonResponse status (JObj [(js ''error'', JStr msg)])"

text \<open>What the outer \<open>catch\<close> answers to an error thrown anywhere in the handler.\<close>

definition failureResponse :: "jserror \<Rightarrow> response" where
  "failureResponse e =
     jsonResponse 500 (JObj [(js ''error'', JStr (message e)), (js ''success'', JBool False)])"

definition answerOnly :: "world \<Rightarrow> response \<Rightarrow> gateway_request list \<Rightarrow> outcome" where
  "answerOnly w r reqs =
     \<lparr> out_response = r, out_requests = reqs, out_update = None, out_trips = trips_at_write w \<rparr>"

text \<open>
  Authentication and input validation: a response, or the caller and the validated request.
\<close>

definition identify :: "runtime \<Rightarrow> world \<Rightarrow> request \<Rightarrow> response + jsstring \<times> trip_request" where
  "identify rt w req =
     (case req_authorization req of
        None \<Rightarrow> Inl (errorResponse 401 (js ''Unauthorized: Missing authorization header''))
      | Some authHeader \<Rightarrow>
          if authHeader = []
            then Inl (errorResponse 401 (js ''Unauthorized: Missing authorization header''))
          else if removeFirst (js ''Bearer '') authHeader = []
            then Inl (errorResponse 401 (js ''Unauthorized: Invalid token format''))
          else if \<not> supabase_configured w
            then Inl (failureResponse (Error (js ''Supabase configuration missing'')))
          else
            (case getUser w (removeFirst (js ''Bearer '') authHeader) of
               None \<Rightarrow> Inl (errorResponse 401 (js ''Unauthorized: Invalid or expired token''))
             | Some uid \<Rightarrow>
                 (case req_json req of
                    Inl e \<Rightarrow> Inl (errorResponse 400 (message e))
                  | Inr body \<Rightarrow>
                      (case validateTripInput rt body of
                         Inl e \<Rightarrow> Inl (errorResponse 400 (message e))
                       | Inr input \<Rightarrow> Inr (uid, input)))))"

text \<open>
  Authorization:
  \<^verbatim>\<open>
  const { data: trip, error: tripError } = await supabaseClient
    .from('trips').select('user_id').eq('id', tripId).single();
  if (tripError || !trip) { return ... 'Trip not found' ... status: 404 }
  if (trip.user_id !== user.id) { return ... 'Unauthorized: You do not own this trip' ... status: 403 }
  \<close>
\<close>

definition authorize :: "world \<Rightarrow> jsstring \<Rightarrow> trip_request \<Rightarrow> response option" where
  "authorize w uid input =
     (case selectTrip w uid (tripId input) of
        None \<Rightarrow> Some (errorResponse 404 (js ''Trip not found''))
      | Some trip \<Rightarrow>
          if row_user_id trip \<noteq> uid
          then Some (errorResponse 403 (js ''Unauthorized: You do not own this trip''))
          else None)"

text \<open>The handler up to the gateway; the key of the gateway is read last.\<close>

definition admit :: "runtime \<Rightarrow> world \<Rightarrow> request \<Rightarrow> response + jsstring \<times> trip_request" where
  "admit rt w req =
     (case identify rt w req of
        Inl r \<Rightarrow> Inl r
      | Inr (uid, input) \<Rightarrow>
          (case authorize w uid input of
             Some r \<Rightarrow> Inl r
           | None \<Rightarrow>
               if lovable_api_key w = None
                 then Inl (failureResponse (Error (js ''Lovable AI API key not configured'')))
               else if lovable_api_key w = Some []
                 then Inl (failureResponse (Error (js ''Lovable AI API key not configured'')))
               else Inr (uid, input)))"

text \<open>
  The write and the answer after it:
  \<^verbatim>\<open>
  const nextStatus = itinerary?.error ? 'draft' : 'planned';
  const { error: updateError } = await supabaseAdmin.from('trips')
    .update({ ai_itinerary: itinerary, status: nextStatus })
    .eq('id', tripId).eq('user_id', user.id);
  if (updateError) {
    throw new Error(`Failed to update trip: ${updateError.message}`);
  }
  const success = !itinerary?.error;
  return new Response(JSON.stringify({ success, itinerary,
    ...(success ? { message: 'Trip planned successfully with AI!' }
                : { error: itinerary.error, retryable: true }) }), ...);
  \<close>
\<close>

definition itineraryError :: "json \<Rightarrow> json option" where
  "itineraryError itinerary = optProp (Some itinerary) (js ''error'')"

definition persist ::
  "world \<Rightarrow> jsstring \<Rightarrow> trip_request \<Rightarrow> json \<Rightarrow> gateway_request list \<Rightarrow> outcome" where
  "persist w uid input itinerary reqs =
     (let nextStatus = (if truthyO (itineraryError itinerary) then js ''draft'' else js ''planned'');
          u = \<lparr> upd_id = tripId input, upd_user_id = uid, upd_ai_itinerary = itinerary,
                upd_status = nextStatus \<rparr>
      in case update_error w of
           Some m \<Rightarrow>
             \<lparr> out_response = failureResponse (Error (js ''Failed to update trip: '' @ m)),
               out_requests = reqs, out_update = Some u, out_trips = trips_at_write w \<rparr>
         | None \<Rightarrow>
             \<lparr> out_response =
                 jsonResponse 200
                   (if \<not> truthyO (itineraryError itinerary)
                    then JObj [(js ''success'', JBool True), (js ''itinerary'', itinerary),
                               (js ''message'', JStr (js ''Trip planned successfully with AI!''))]
                    else JObj [(js ''success'', JBool False), (js ''itinerary'', itinerary),
                               (js ''error'', orElse (itineraryError itinerary) JNull),
                               (js ''retryable'', JBool True)]),
               out_requests = reqs, out_update = Some u,
               out_trips = applyUpdate u (trips_at_write w) \<rparr>)"

text \<open>
  The handler after admission: the planning request, the first pass, the answer 429 when
  the message of the error thrown says \<open>temporarily busy\<close> or \<open>try again\<close>, the second pass
  otherwise, and the write.
\<close>

definition rateLimitResponse :: "jsstring \<Rightarrow> response" where
  "rateLimitResponse errorMessage =
     jsonResponse 429
       (JObj [(js ''error'', JStr errorMessage), (js ''success'', JBool False),
              (js ''retryable'', JBool True)])"

definition plan :: "runtime \<Rightarrow> world \<Rightarrow> jsstring \<Rightarrow> trip_request \<Rightarrow> outcome" where
  "plan rt w uid input =
     (case callLovableAi rt (completion_reply w) of
        Inl e \<Rightarrow> answerOnly w (failureResponse e) [Completion]
      | Inr data \<Rightarrow>
          (case firstPass rt data of
             (rawContent, Inr itinerary) \<Rightarrow> persist w uid input itinerary [Completion]
           | (rawContent, Inl parseError) \<Rightarrow>
               if includesStr (js ''temporarily busy'') (message parseError)
                 then answerOnly w (rateLimitResponse (message parseError)) [Completion]
               else if includesStr (js ''try again'') (message parseError)
                 then answerOnly w (rateLimitResponse (message parseError)) [Completion]
               else
                 (case secondPass rt w rawContent of
                    (itinerary, reqs) \<Rightarrow> persist w uid input itinerary (Completion # reqs))))"

definition serve :: "runtime \<Rightarrow> world \<Rightarrow> request \<Rightarrow> outcome" where
  "serve rt w req =
     (if req_method req = js ''OPTIONS''
      then answerOnly w \<lparr> resp_status = 200, resp_body = None \<rparr> []
      else case admit rt w req of
             Inl r \<Rightarrow> answerOnly w r []
           | Inr (uid, input) \<Rightarrow> plan rt w uid input)"

subsection \<open>An example world\<close>

text \<open>
  Alice owns the example trip; the gateway answers the planning request with a completion
  of the given content, and a repair request with a completion of the given repair content.
\<close>

definition jsonStringLiteral :: "jsstring \<Rightarrow> jsstring" where
  "jsonStringLiteral s =
     [0x22] @ concat (map (\<lambda>c. if c = 0x22 \<or> c = 0x5C then [0x5C, c] else [c]) s) @ [0x22]"

definition completionText :: "jsstring \<Rightarrow> jsstring" where
  "completionText content =
     js ''{\"choices\":[{\"message\":{\"content\":'' @ jsonStringLiteral content @ js ''}}]}''"

definition alice :: jsstring where
  "alice = js ''a11ce000-0000-4000-8000-000000000001''"

definition bob :: jsstring where
  "bob = js ''b0b00000-0000-4000-8000-000000000002''"

definition exampleTrip :: "jsstring \<Rightarrow> trip_row" where
  "exampleTrip owner =
     \<lparr> row_id = exampleTripId, row_user_id = owner, row_ai_itinerary = None,
       row_status = js ''draft'' \<rparr>"

definition exampleWorld :: "jsstring \<Rightarrow> http_reply \<Rightarrow> http_reply \<Rightarrow> world" where
  "exampleWorld owner first second =
     \<lparr> supabase_configured = True,
       lovable_api_key = Some (js ''key''),
       getUser = (\<lambda>token. if token = js ''alice-token'' then Some alice else None),
       trips = [exampleTrip owner],
       select_policy = ownTripsPolicy,
       select_error = False,
       completion_reply = first,
       repair_reply = (\<lambda>rawContent. second),
       trips_at_write = [exampleTrip owner],
       update_error = None \<rparr>"

definition exampleRequest :: request where
  "exampleRequest =
     \<lparr> req_method = js ''POST'',
       req_authorization = Some (js ''Bearer alice-token''),
       req_json = Inr (exampleBody (js ''Paris'') (js ''2024-06-01'') (js ''2024-06-03'')) \<rparr>"

definition exampleInput :: trip_request where
  "exampleInput =
     \<lparr> tripId = exampleTripId, destination = js ''Paris'', startDate = js ''2024-06-01'',
       endDate = js ''2024-06-03'', travelers = Finite 1, budget = None, preferences = [] \<rparr>"

lemma validate_exampleBody:
  "validateTripInput rt (exampleBody (js ''Paris'') (js ''2024-06-01'') (js ''2024-06-03'')) =
     Inr exampleInput"
  by (simp add: validate_eval exampleInput_def)

lemma selectTrip_example:
  "selectTrip (exampleWorld owner first second) uid exampleTripId =
     (if owner = uid then Some (exampleTrip owner) else None)"
  by (simp add: selectTrip_def exampleWorld_def exampleTrip_def sameUuid_def ownTripsPolicy_def)

lemma exampleRequest_fields:
  "req_method exampleRequest = js ''POST''"
  "req_authorization exampleRequest = Some (js ''Bearer alice-token'')"
  "req_json exampleRequest = Inr (exampleBody (js ''Paris'') (js ''2024-06-01'') (js ''2024-06-03''))"
  by (simp_all add: exampleRequest_def)

lemma exampleWorld_fields:
  "supabase_configured (exampleWorld owner first second)"
  "lovable_api_key (exampleWorld owner first second) = Some (js ''key'')"
  "getUser (exampleWorld owner first second) (js ''alice-token'') = Some alice"
  "\<not> select_error (exampleWorld owner first second)"
  "completion_reply (exampleWorld owner first second) = first"
  "repair_reply (exampleWorld owner first second) raw = second"
  "trips (exampleWorld owner first second) = [exampleTrip owner]"
  "select_policy (exampleWorld owner first second) = ownTripsPolicy"
  "trips_at_write (exampleWorld owner first second) = [exampleTrip owner]"
  "update_error (exampleWorld owner first second) = None"
  by (simp_all add: exampleWorld_def)

lemma bearer_token:
  "js ''Bearer alice-token'' \<noteq> []"
  "removeFirst (js ''Bearer '') (js ''Bearer alice-token'') = js ''alice-token''"
  "js ''alice-token'' \<noteq> []" "js ''key'' \<noteq> []" "js ''POST'' \<noteq> js ''OPTIONS''"
  by (simp_all add: js_def startsWith_def)

lemma identify_example:
  "identify rt (exampleWorld owner first second) exampleRequest = Inr (alice, exampleInput)"
  by (simp add: identify_def exampleRequest_fields exampleWorld_fields bearer_token
      validate_exampleBody)

lemma admit_example:
  "admit rt (exampleWorld owner first second) exampleRequest =
     (if owner = alice then Inr (alice, exampleInput)
      else Inl (errorResponse 404 (js ''Trip not found'')))"
proof -
  have tid: "tripId exampleInput = exampleTripId" by (simp add: exampleInput_def)
  show ?thesis
    by (simp add: admit_def authorize_def identify_example exampleWorld_fields bearer_token tid
        selectTrip_example exampleTrip_def)
qed

lemma alice_not_bob: "bob \<noteq> alice"
  by (simp add: alice_def bob_def js_def)

subsection \<open>A trip of another owner\<close>

lemma selectTrip_policy:
  "selectTrip w uid tid = Some r \<Longrightarrow> select_policy w uid r \<and> sameUuid (row_id r) tid \<and> r \<in> set (trips w)"
proof -
  assume a: "selectTrip w uid tid = Some r"
  let ?rows = "filter (\<lambda>r. select_policy w uid r \<and> sameUuid (row_id r) tid) (trips w)"
  from a have "?rows = [r]"
    by (auto simp: selectTrip_def split: if_splits list.splits)
  then have "r \<in> set ?rows" by simp
  then show ?thesis by simp
qed

lemma selectTrip_hidden:
  assumes "\<forall>r \<in> set (trips w). sameUuid (row_id r) tid \<longrightarrow> \<not> select_policy w uid r"
  shows "selectTrip w uid tid = None"
proof (cases "selectTrip w uid tid")
  case (Some r)
  from selectTrip_policy [OF Some] assms show ?thesis by blast
qed simp

lemma status_simps:
  "resp_status (errorResponse n m) = n" "resp_status (failureResponse e) = 500"
  "resp_status (rateLimitResponse m) = 429" "resp_status (jsonResponse n b) = n"
  by (simp_all add: errorResponse_def failureResponse_def rateLimitResponse_def jsonResponse_def)

lemma identify_status: "identify rt w req = Inl r \<Longrightarrow> resp_status r \<in> {400, 401, 500}"
  by (auto simp: identify_def status_simps split: option.splits if_splits sum.splits)

lemma persist_status: "resp_status (out_response (persist w uid input it reqs)) \<in> {200, 500}"
  by (simp add: persist_def Let_def status_simps split: option.splits)

lemma plan_status: "resp_status (out_response (plan rt w uid input)) \<in> {200, 429, 500}"
proof -
  have p: "\<forall>it reqs. resp_status (out_response (persist w uid input it reqs)) = 200 \<or>
      resp_status (out_response (persist w uid input it reqs)) = 500"
    using persist_status [of w uid input] by simp
  show ?thesis
    using p by (auto simp: plan_def answerOnly_def status_simps split: sum.splits prod.splits)
qed

text \<open>
  Under the policy of the migration the look-up never returns a row of another owner, so
  the branch that answers 403 is not reached.
\<close>

lemma forbidden_branch_dead:
  assumes "req_method req \<noteq> js ''OPTIONS''"
      and "identify rt w req = Inr (uid, input)"
      and pol: "select_policy w = ownTripsPolicy"
  shows "resp_status (out_response (serve rt w req)) \<noteq> 403"
proof -
  have auth: "authorize w uid input = Some r \<Longrightarrow> resp_status r = 404" for r
    using selectTrip_policy [of w uid "tripId input"] pol
    by (auto simp: authorize_def status_simps ownTripsPolicy_def split: option.splits if_splits)
  show ?thesis
  proof (cases "authorize w uid input")
    case (Some r)
    then show ?thesis
      using assms auth [OF Some] by (simp add: serve_def admit_def answerOnly_def)
  next
    case None
    then show ?thesis
      using assms plan_status [of rt w uid input]
      by (auto simp: serve_def admit_def answerOnly_def status_simps)
  qed
qed

lemma filter_policy:
  "filter (\<lambda>r. select_policy w uid r \<and> sameUuid (row_id r) tid) (trips w) =
     filter (select_policy w uid) (filter (\<lambda>r. sameUuid (row_id r) tid) (trips w))"
  by (simp add: conj_commute)

text \<open>
  Claim C6 asks for 403 when an authenticated caller names an existing trip of another
  owner. The handler means to give that answer: it has the branch, which also logs the
  owner of the trip. But it looks the trip up through the client that carries the caller's
  token, under the row-level policy for \<open>SELECT\<close>, and the policy of the repository's
  migration shows a user the trips that user owns and no other. So the row is not returned
  and the handler answers 404, \<open>Trip not found\<close>, as for a trip that is absent. With a look-up
  that no policy restricts, as through the service-role client that the handler uses for
  its write, the same request is answered 403.

  The table holds one row with the identifier of the request, \<open>trip\<close>, and its owner is not
  the caller.
\<close>

theorem foreign_trip_answered_404:
  assumes "req_method req \<noteq> js ''OPTIONS''"
      and "identify rt w req = Inr (uid, input)"
      and "filter (\<lambda>r. sameUuid (row_id r) (tripId input)) (trips w) = [trip]"
      and "row_user_id trip \<noteq> uid"
      and "\<not> select_error w"
  shows "(select_policy w = ownTripsPolicy \<longrightarrow>
            out_response (serve rt w req) = errorResponse 404 (js ''Trip not found'')) \<and>
         (select_policy w = (\<lambda>uid r. True) \<longrightarrow>
            out_response (serve rt w req) =
              errorResponse 403 (js ''Unauthorized: You do not own this trip''))"
proof (intro conjI impI)
  have visible:
    "filter (\<lambda>r. select_policy w uid r \<and> sameUuid (row_id r) (tripId input)) (trips w) =
       filter (select_policy w uid) [trip]"
    unfolding filter_policy assms(3) ..
  {
    assume "select_policy w = ownTripsPolicy"
    then have "filter (select_policy w uid) [trip] = []"
      using assms(4) by (simp add: ownTripsPolicy_def)
    then have "selectTrip w uid (tripId input) = None"
      unfolding selectTrip_def visible by simp
    then show "out_response (serve rt w req) = errorResponse 404 (js ''Trip not found'')"
      using assms(1,2) by (simp add: serve_def admit_def authorize_def answerOnly_def)
  }
  assume "select_policy w = (\<lambda>uid r. True)"
  then have "filter (select_policy w uid) [trip] = [trip]"
    by simp
  then have "selectTrip w uid (tripId input) = Some trip"
    unfolding selectTrip_def visible using assms(5) by simp
  then show "out_response (serve rt w req) =
      errorResponse 403 (js ''Unauthorized: You do not own this trip'')"
    using assms(1,2,4) by (simp add: serve_def admit_def authorize_def answerOnly_def)
qed

text \<open>
  The theorem where Alice asks for the trip that Bob owns: the trip exists, its owner is not
  the caller, and the answer is 404; it is 403 when the look-up is not restricted.
\<close>

theorem foreign_trip_answered_404_witness:
  "trips (exampleWorld bob (FetchFailed []) (FetchFailed [])) = [exampleTrip bob] \<and>
   row_id (exampleTrip bob) = exampleTripId \<and> row_user_id (exampleTrip bob) = bob \<and>
   bob \<noteq> alice \<and>
   select_policy (exampleWorld bob (FetchFailed []) (FetchFailed [])) = ownTripsPolicy \<and>
   identify exampleRuntime (exampleWorld bob (FetchFailed []) (FetchFailed [])) exampleRequest =
     Inr (alice, exampleInput) \<and>
   tripId exampleInput = exampleTripId \<and>
   out_response (serve exampleRuntime (exampleWorld bob (FetchFailed []) (FetchFailed []))
     exampleRequest) = errorResponse 404 (js ''Trip not found'') \<and>
   resp_status (out_response (serve exampleRuntime
     (exampleWorld bob (FetchFailed []) (FetchFailed [])) exampleRequest)) = 404 \<and>
   out_response (serve exampleRuntime
     ((exampleWorld bob (FetchFailed []) (FetchFailed [])) \<lparr> select_policy := (\<lambda>uid r. True) \<rparr>)
     exampleRequest) = errorResponse 403 (js ''Unauthorized: You do not own this trip'')"
proof -
  let ?w = "exampleWorld bob (FetchFailed []) (FetchFailed [])"
  let ?v = "?w \<lparr> select_policy := (\<lambda>uid r. True) \<rparr>"
  have m: "req_method exampleRequest \<noteq> js ''OPTIONS''"
    by (simp add: exampleRequest_fields bearer_token)
  have i: "identify exampleRuntime ?w exampleRequest = Inr (alice, exampleInput)"
    by (rule identify_example)
  have j: "identify exampleRuntime ?v exampleRequest = Inr (alice, exampleInput)"
    by (simp add: identify_def exampleRequest_fields exampleWorld_fields bearer_token
        validate_exampleBody)
  have tid: "tripId exampleInput = exampleTripId"
    by (simp add: exampleInput_def)
  have rows: "filter (\<lambda>r. sameUuid (row_id r) (tripId exampleInput)) (trips ?w) = [exampleTrip bob]"
    "filter (\<lambda>r. sameUuid (row_id r) (tripId exampleInput)) (trips ?v) = [exampleTrip bob]"
    by (simp_all add: exampleWorld_fields exampleTrip_def tid sameUuid_def)
  have owner: "row_user_id (exampleTrip bob) \<noteq> alice"
    by (simp add: exampleTrip_def alice_not_bob)
  have e: "\<not> select_error ?w" "\<not> select_error ?v"
    by (simp_all add: exampleWorld_fields)
  from foreign_trip_answered_404 [OF m i rows(1) owner e(1)]
    foreign_trip_answered_404 [OF m j rows(2) owner e(2)]
  show ?thesis
    using i tid by (simp add: exampleWorld_fields status_simps exampleTrip_def alice_not_bob)
qed

subsection \<open>Completions of the example gateway\<close>

definition completionData :: "jsstring \<Rightarrow> json" where
  "completionData content =
     JObj [(js ''choices'', JArr [JObj [(js ''message'', JObj [(js ''content'', JStr content)])]])]"

lemmas json_eval =
  JSON_parse_def parseTokens_def js_def isJsonSpace_def isDigit_def isHex_def hex4_def
  unescape_def hexValue_def lexNumber_def lexInteger_def lexFraction_def lexExponent_def
  numberOfLiteral_def strToNum_def digitsValue_def Let_def

lemmas extract_eval =
  extractJsonCandidate_def trim_def isSpace_def startsWith_def asciiLower_def indexOf_def
  lastIndexOf_def js_def Let_def

lemma completion_error_doc:
  \<open>JSON_parse rt (completionText (js ''{"error":"x"}'')) = Inr (completionData (js ''{"error":"x"}''))\<close>
  by (simp add: completionText_def jsonStringLiteral_def completionData_def json_eval)

lemma parse_error_doc:
  \<open>parseItinerary rt (js ''{"error":"x"}'') = Inr (JObj [(js ''error'', JStr (js ''x''))])\<close>
proof -
  have e: \<open>extractJsonCandidate (js ''{"error":"x"}'') = Inr (js ''{"error":"x"}'')\<close>
    by (simp add: extract_eval)
  have n: \<open>normalizeJsonText rt (js ''{"error":"x"}'') = js ''{"error":"x"}''\<close>
    by (simp add: normalize_eval)
  have p: \<open>JSON_parse rt (js ''{"error":"x"}'') = Inr (JObj [(js ''error'', JStr (js ''x''))])\<close>
    by (simp add: json_eval)
  show ?thesis by (simp add: parseItinerary_def e n p)
qed

lemma firstPass_completionData:
  "content \<noteq> [] \<Longrightarrow>
   firstPass rt (completionData content) = (Some (JStr content), parseItinerary rt content)"
  by (simp add: firstPass_def completionData_def getMember_def js_def Let_def)

subsection \<open>The write and the answer\<close>

lemma applyUpdate_none: "affectedRows u rows = 0 \<Longrightarrow> applyUpdate u rows = rows"
proof -
  assume "affectedRows u rows = 0"
  then have "\<forall>r \<in> set rows. \<not> matches u r"
    by (simp add: affectedRows_def filter_empty_conv)
  then show ?thesis
    by (simp add: applyUpdate_def map_idI)
qed

lemma update_from_persist:
  assumes "out_update (serve rt w req) = Some u"
  shows "\<exists>uid input itinerary reqs. serve rt w req = persist w uid input itinerary reqs"
proof -
  have none: "out_update (answerOnly w r reqs) = None" for r reqs
    by (simp add: answerOnly_def)
  from assms none obtain uid input where s: "serve rt w req = plan rt w uid input"
    by (auto simp: serve_def split: if_splits sum.splits)
  from assms none show ?thesis
    unfolding s by (auto simp: plan_def split: sum.splits prod.splits if_splits)
qed

lemma persist_update:
  "out_update (persist w uid input itinerary reqs) =
     Some \<lparr> upd_id = tripId input, upd_user_id = uid, upd_ai_itinerary = itinerary,
            upd_status = (if truthyO (itineraryError itinerary) then js ''draft'' else js ''planned'') \<rparr>"
  by (simp add: persist_def Let_def split: option.splits)

text \<open>
  Claim C7, as the code has it. When the handler has sent its update, it answers 500 if the
  store reports an error, with the store's message, and 200 if the store reports none,
  whatever number of rows the update changed: when it changed no row, the table is as it
  was and the answer is still 200.
\<close>

theorem write_answer:
  assumes "out_update (serve rt w req) = Some u"
  shows "(\<forall>m. update_error w = Some m \<longrightarrow>
            out_response (serve rt w req) =
              failureResponse (Error (js ''Failed to update trip: '' @ m)) \<and>
            out_trips (serve rt w req) = trips_at_write w) \<and>
         (update_error w = None \<longrightarrow>
            resp_status (out_response (serve rt w req)) = 200 \<and>
            out_trips (serve rt w req) = applyUpdate u (trips_at_write w)) \<and>
         (update_error w = None \<and> affectedRows u (trips_at_write w) = 0 \<longrightarrow>
            resp_status (out_response (serve rt w req)) = 200 \<and>
            out_trips (serve rt w req) = trips_at_write w)"
proof -
  from update_from_persist [OF assms] obtain uid input itinerary reqs
    where s: "serve rt w req = persist w uid input itinerary reqs" by blast
  from assms have u: "u = \<lparr> upd_id = tripId input, upd_user_id = uid, upd_ai_itinerary = itinerary,
      upd_status = (if truthyO (itineraryError itinerary) then js ''draft'' else js ''planned'') \<rparr>"
    unfolding s persist_update by simp
  have err: "out_response (serve rt w req) =
        failureResponse (Error (js ''Failed to update trip: '' @ m)) \<and>
      out_trips (serve rt w req) = trips_at_write w" if "update_error w = Some m" for m
    using that unfolding s by (simp add: persist_def Let_def)
  have ok: "resp_status (out_response (serve rt w req)) = 200 \<and>
      out_trips (serve rt w req) = applyUpdate u (trips_at_write w)" if "update_error w = None"
    using that unfolding s u by (simp add: persist_def Let_def status_simps)
  show ?thesis
    using err ok by (auto simp: applyUpdate_none)
qed

subsection \<open>What is written to the trip\<close>

text \<open>
  An outcome has written a document and a status to a trip of a user when the handler sent
  that update to the store and the table is the table with the update applied.
\<close>

definition written :: "world \<Rightarrow> outcome \<Rightarrow> jsstring \<Rightarrow> jsstring \<Rightarrow> json \<Rightarrow> jsstring \<Rightarrow> bool" where
  "written w out tid uid doc st \<longleftrightarrow>
     out_update out =
       Some \<lparr> upd_id = tid, upd_user_id = uid, upd_ai_itinerary = doc, upd_status = st \<rparr> \<and>
     out_trips out =
       applyUpdate \<lparr> upd_id = tid, upd_user_id = uid, upd_ai_itinerary = doc, upd_status = st \<rparr>
         (trips_at_write w)"

text \<open>The status the handler writes with a document.\<close>

definition statusFor :: "json \<Rightarrow> jsstring" where
  "statusFor doc = (if truthyO (itineraryError doc) then js ''draft'' else js ''planned'')"

definition rateLimitMessage :: "jsstring \<Rightarrow> bool" where
  "rateLimitMessage m \<longleftrightarrow> includesStr (js ''temporarily busy'') m \<or> includesStr (js ''try again'') m"

lemma persist_written:
  "update_error w = None \<Longrightarrow>
   written w (persist w uid input doc reqs) (tripId input) uid doc (statusFor doc) \<and>
   resp_status (out_response (persist w uid input doc reqs)) = 200"
  by (simp add: written_def persist_def statusFor_def Let_def status_simps)

lemma placeholder_error:
  "itineraryError (placeholder rawContent) = Some (JStr placeholderMessage)"
  "truthyO (itineraryError (placeholder rawContent))"
  "statusFor (placeholder rawContent) = js ''draft''"
  by (simp_all add: itineraryError_def placeholder_def statusFor_def placeholderMessage_def js_def)

lemma placeholder_raw:
  "raw \<noteq> [] \<Longrightarrow>
   placeholder (Some (JStr raw)) =
     JObj [(js ''error'', JStr placeholderMessage), (js ''rawContent'', JStr raw)]"
  by (simp add: placeholder_def)

lemma plan_cases:
  assumes "callLovableAi rt (completion_reply w) = Inr data"
      and "firstPass rt data = (rawContent, r)"
  shows "(\<forall>doc. r = Inr doc \<longrightarrow> plan rt w uid input = persist w uid input doc [Completion]) \<and>
         (\<forall>e. r = Inl e \<and> rateLimitMessage (message e) \<longrightarrow>
            plan rt w uid input = answerOnly w (rateLimitResponse (message e)) [Completion]) \<and>
         (\<forall>e. r = Inl e \<and> \<not> rateLimitMessage (message e) \<longrightarrow>
            plan rt w uid input =
              persist w uid input (fst (secondPass rt w rawContent))
                (Completion # snd (secondPass rt w rawContent)))"
  using assms by (auto simp: plan_def rateLimitMessage_def split: prod.splits)

text \<open>
  Claim C1, as the code has it. Take a request that is admitted, a completion that the
  gateway returns as JSON, and a store that reports no error on the write. If the first
  pass fails with an error whose message says neither \<open>temporarily busy\<close> nor \<open>try again\<close>,
  and the repair attempt fails too, the handler writes the placeholder
  \<open>{ error: message, rawContent: raw content }\<close> and the status \<open>draft\<close> to the trip, and answers
  200 with \<open>success: false\<close> and \<open>retryable: true\<close>. If the first pass or the repair attempt
  yields a document, the handler writes that document, with the status \<open>planned\<close> unless the
  document has a truthy \<open>error\<close> member, and then with the status \<open>draft\<close>.
\<close>

theorem itinerary_written:
  assumes "req_method req \<noteq> js ''OPTIONS''"
      and "admit rt w req = Inr (uid, input)"
      and "callLovableAi rt (completion_reply w) = Inr data"
      and "firstPass rt data = (rawContent, r)"
      and "update_error w = None"
  shows "(\<forall>e e'. r = Inl e \<and> \<not> rateLimitMessage (message e) \<and>
            repairAttempt rt w rawContent = Inl e' \<longrightarrow>
            written w (serve rt w req) (tripId input) uid (placeholder rawContent) (js ''draft'') \<and>
            out_response (serve rt w req) =
              jsonResponse 200
                (JObj [(js ''success'', JBool False), (js ''itinerary'', placeholder rawContent),
                       (js ''error'', JStr placeholderMessage), (js ''retryable'', JBool True)])) \<and>
         (\<forall>raw. raw \<noteq> [] \<longrightarrow>
            placeholder (Some (JStr raw)) =
              JObj [(js ''error'', JStr placeholderMessage), (js ''rawContent'', JStr raw)]) \<and>
         (\<forall>doc. r = Inr doc \<longrightarrow>
            written w (serve rt w req) (tripId input) uid doc (statusFor doc) \<and>
            resp_status (out_response (serve rt w req)) = 200) \<and>
         (\<forall>e doc. r = Inl e \<and> \<not> rateLimitMessage (message e) \<and>
            repairAttempt rt w rawContent = Inr doc \<longrightarrow>
            written w (serve rt w req) (tripId input) uid doc (statusFor doc) \<and>
            resp_status (out_response (serve rt w req)) = 200) \<and>
         (\<forall>doc. statusFor doc = js ''planned'' \<or>
            statusFor doc = js ''draft'' \<and> truthyO (itineraryError doc))"
proof -
  have s: "serve rt w req = plan rt w uid input"
    using assms(1,2) by (simp add: serve_def)
  note pc = plan_cases [OF assms(3,4), of uid input]
  have failed: "written w (serve rt w req) (tripId input) uid (placeholder rawContent) (js ''draft'') \<and>
      out_response (serve rt w req) =
        jsonResponse 200
          (JObj [(js ''success'', JBool False), (js ''itinerary'', placeholder rawContent),
                 (js ''error'', JStr placeholderMessage), (js ''retryable'', JBool True)])"
    if "r = Inl e" "\<not> rateLimitMessage (message e)" "repairAttempt rt w rawContent = Inl e'"
    for e e'
  proof -
    have "fst (secondPass rt w rawContent) = placeholder rawContent"
      using that(3) by (simp add: secondPass_def)
    then have p: "serve rt w req = persist w uid input (placeholder rawContent)
        (Completion # snd (secondPass rt w rawContent))"
      using pc that(1,2) by (simp add: s)
    have "out_response (persist w uid input (placeholder rawContent) reqs) =
        jsonResponse 200
          (JObj [(js ''success'', JBool False), (js ''itinerary'', placeholder rawContent),
                 (js ''error'', JStr placeholderMessage), (js ''retryable'', JBool True)])" for reqs
      using assms(5) by (simp add: persist_def Let_def placeholder_error placeholderMessage_def js_def)
    then show ?thesis
      unfolding p using persist_written [OF assms(5), of uid input "placeholder rawContent"]
      by (simp add: placeholder_error)
  qed
  have first: "written w (serve rt w req) (tripId input) uid doc (statusFor doc) \<and>
      resp_status (out_response (serve rt w req)) = 200" if "r = Inr doc" for doc
    using pc that persist_written [OF assms(5)] by (simp add: s)
  have repaired: "written w (serve rt w req) (tripId input) uid doc (statusFor doc) \<and>
      resp_status (out_response (serve rt w req)) = 200"
    if "r = Inl e" "\<not> rateLimitMessage (message e)" "repairAttempt rt w rawContent = Inr doc"
    for e doc
  proof -
    have "fst (secondPass rt w rawContent) = doc"
      using that(3) by (simp add: secondPass_def)
    then have "serve rt w req = persist w uid input doc (Completion # snd (secondPass rt w rawContent))"
      using pc that(1,2) by (simp add: s)
    then show ?thesis using persist_written [OF assms(5)] by simp
  qed
  have st: "statusFor doc = js ''planned'' \<or> statusFor doc = js ''draft'' \<and> truthyO (itineraryError doc)"
    for doc by (simp add: statusFor_def)
  show ?thesis
    using failed first repaired st placeholder_raw by blast
qed

subsection \<open>The handler on the example world\<close>

lemma callLovableAi_ok:
  "JSON_parse rt text = Inr data \<Longrightarrow> callLovableAi rt (Reply 200 text) = Inr data"
  by (simp add: callLovableAi_def)

lemma serve_example:
  "serve rt (exampleWorld alice first second) exampleRequest =
     plan rt (exampleWorld alice first second) alice exampleInput"
  by (simp add: serve_def admit_example exampleRequest_fields bearer_token)

text \<open>A completion that is no JSON, and a repair that is none either.\<close>

definition refusal :: jsstring where
  "refusal = js ''I cannot plan this trip.''"

definition apology :: jsstring where
  "apology = js ''Sorry, no JSON today.''"

lemma completion_refusal:
  "JSON_parse rt (completionText refusal) = Inr (completionData refusal)"
  "JSON_parse rt (completionText apology) = Inr (completionData apology)"
  by (simp_all add: completionText_def jsonStringLiteral_def completionData_def refusal_def
      apology_def json_eval)

lemma parse_refusal:
  "parseItinerary rt refusal = Inl (Error (js ''No JSON object found in AI response''))"
  "parseItinerary rt apology = Inl (Error (js ''No JSON object found in AI response''))"
  by (simp_all add: parseItinerary_def refusal_def apology_def extract_eval)

lemma no_object_message:
  "\<not> rateLimitMessage (js ''No JSON object found in AI response'')"
  by (simp add: rateLimitMessage_def js_def startsWith_def)

lemma repair_apology:
  "repairAttempt rt (exampleWorld owner first (Reply 200 (completionText apology)))
     (Some (JStr refusal)) = Inl (Error (js ''No JSON object found in AI response''))"
proof -
  have "repairJsonWithAi rt (exampleWorld owner first (Reply 200 (completionText apology))) refusal =
      Inr apology"
    by (simp add: repairJsonWithAi_def exampleWorld_fields callLovableAi_ok completion_refusal)
      (simp add: completionData_def getMember_def apology_def js_def)
  then show ?thesis
    by (simp add: repairAttempt_def parse_refusal) (simp add: refusal_def js_def)
qed

text \<open>
  The theorem of claim C1 where the gateway refuses and then apologizes: both attempts
  fail, the placeholder with the refusal as raw content is written, and the trip is a draft.
\<close>

theorem itinerary_written_witness:
  "req_method exampleRequest \<noteq> js ''OPTIONS'' \<and>
   admit exampleRuntime
     (exampleWorld alice (Reply 200 (completionText refusal)) (Reply 200 (completionText apology)))
     exampleRequest = Inr (alice, exampleInput) \<and>
   firstPass exampleRuntime (completionData refusal) =
     (Some (JStr refusal), Inl (Error (js ''No JSON object found in AI response''))) \<and>
   \<not> rateLimitMessage (js ''No JSON object found in AI response'') \<and>
   written
     (exampleWorld alice (Reply 200 (completionText refusal)) (Reply 200 (completionText apology)))
     (serve exampleRuntime
        (exampleWorld alice (Reply 200 (completionText refusal)) (Reply 200 (completionText apology)))
        exampleRequest)
     exampleTripId alice
     (JObj [(js ''error'', JStr placeholderMessage), (js ''rawContent'', JStr refusal)])
     (js ''draft'') \<and>
   out_trips
     (serve exampleRuntime
        (exampleWorld alice (Reply 200 (completionText refusal)) (Reply 200 (completionText apology)))
        exampleRequest) =
     [\<lparr> row_id = exampleTripId, row_user_id = alice,
        row_ai_itinerary =
          Some (JObj [(js ''error'', JStr placeholderMessage), (js ''rawContent'', JStr refusal)]),
        row_status = js ''draft'' \<rparr>]"
proof -
  let ?w = "exampleWorld alice (Reply 200 (completionText refusal))
    (Reply 200 (completionText apology))"
  have ne: "refusal \<noteq> []" by (simp add: refusal_def js_def)
  have m: "req_method exampleRequest \<noteq> js ''OPTIONS''"
    by (simp add: exampleRequest_fields bearer_token)
  have a: "admit exampleRuntime ?w exampleRequest = Inr (alice, exampleInput)"
    by (simp add: admit_example)
  have c: "callLovableAi exampleRuntime (completion_reply ?w) = Inr (completionData refusal)"
    by (simp add: exampleWorld_fields callLovableAi_ok completion_refusal)
  have f: "firstPass exampleRuntime (completionData refusal) =
      (Some (JStr refusal), Inl (Error (js ''No JSON object found in AI response'')))"
    by (simp add: firstPass_completionData ne parse_refusal)
  have u: "update_error ?w = None" by (simp add: exampleWorld_fields)
  have p: "placeholder (Some (JStr refusal)) =
      JObj [(js ''error'', JStr placeholderMessage), (js ''rawContent'', JStr refusal)]"
    using ne by (rule placeholder_raw)
  have t: "tripId exampleInput = exampleTripId" by (simp add: exampleInput_def)
  have rows: "applyUpdate \<lparr> upd_id = exampleTripId, upd_user_id = alice, upd_ai_itinerary = doc,
      upd_status = st \<rparr> (trips_at_write ?w) =
      [\<lparr> row_id = exampleTripId, row_user_id = alice, row_ai_itinerary = Some doc,
         row_status = st \<rparr>]" for doc st
    by (simp add: exampleWorld_fields applyUpdate_def matches_def exampleTrip_def sameUuid_def)
  from itinerary_written [OF m a c f u] no_object_message repair_apology [of exampleRuntime alice]
  have w: "written ?w (serve exampleRuntime ?w exampleRequest) exampleTripId alice
      (JObj [(js ''error'', JStr placeholderMessage), (js ''rawContent'', JStr refusal)])
      (js ''draft'')"
    by (simp add: p t)
  then have "out_trips (serve exampleRuntime ?w exampleRequest) =
      [\<lparr> row_id = exampleTripId, row_user_id = alice,
         row_ai_itinerary =
           Some (JObj [(js ''error'', JStr placeholderMessage), (js ''rawContent'', JStr refusal)]),
         row_status = js ''draft'' \<rparr>]"
    by (simp add: written_def rows)
  with m a f w no_object_message show ?thesis by simp
qed

text \<open>
  Claim C1 refuted: the gateway's content \<open>{"error":"x"}\<close> parses on the first attempt, the
  parsed document is written, and the status written with it is \<open>draft\<close>, not \<open>planned\<close>.
\<close>

theorem parsed_document_written_as_draft:
  \<open>parseItinerary exampleRuntime (js ''{"error":"x"}'') =
     Inr (JObj [(js ''error'', JStr (js ''x''))]) \<and>
   firstPass exampleRuntime (completionData (js ''{"error":"x"}'')) =
     (Some (JStr (js ''{"error":"x"}'')), Inr (JObj [(js ''error'', JStr (js ''x''))])) \<and>
   callLovableAi exampleRuntime (Reply 200 (completionText (js ''{"error":"x"}''))) =
     Inr (completionData (js ''{"error":"x"}'')) \<and>
   out_update
     (serve exampleRuntime
        (exampleWorld alice (Reply 200 (completionText (js ''{"error":"x"}''))) (FetchFailed []))
        exampleRequest) =
     Some \<lparr> upd_id = exampleTripId, upd_user_id = alice,
            upd_ai_itinerary = JObj [(js ''error'', JStr (js ''x''))],
            upd_status = js ''draft'' \<rparr> \<and>
   js ''draft'' \<noteq> js ''planned''\<close>
proof -
  let ?c = \<open>js ''{"error":"x"}''\<close>
  let ?w = "exampleWorld alice (Reply 200 (completionText ?c)) (FetchFailed [])"
  have ne: "?c \<noteq> []" by (simp add: js_def)
  have f: "firstPass exampleRuntime (completionData ?c) =
      (Some (JStr ?c), Inr (JObj [(js ''error'', JStr (js ''x''))]))"
    by (simp only: firstPass_completionData [OF ne] parse_error_doc)
  have c: "callLovableAi exampleRuntime (Reply 200 (completionText ?c)) = Inr (completionData ?c)"
    by (rule callLovableAi_ok) (rule completion_error_doc)
  have "plan exampleRuntime ?w alice exampleInput =
      persist ?w alice exampleInput (JObj [(js ''error'', JStr (js ''x''))]) [Completion]"
    using plan_cases [of exampleRuntime ?w "completionData ?c" "Some (JStr ?c)"
        "Inr (JObj [(js ''error'', JStr (js ''x''))])" alice exampleInput] c f
    by (simp add: exampleWorld_fields)
  then have "out_update (serve exampleRuntime ?w exampleRequest) =
      Some \<lparr> upd_id = exampleTripId, upd_user_id = alice,
             upd_ai_itinerary = JObj [(js ''error'', JStr (js ''x''))],
             upd_status = js ''draft'' \<rparr>"
    by (simp add: serve_example persist_update exampleInput_def)
      (simp add: itineraryError_def js_def)
  moreover have "js ''draft'' \<noteq> js ''planned''" by (simp add: js_def)
  ultimately show ?thesis using f c parse_error_doc [of exampleRuntime] by simp
qed

subsection \<open>A write that changes no row\<close>

text \<open>
  The gateway plans the trip while the trip passes from Alice to Bob: when the handler's
  write arrives, no row has both the trip's id and Alice as its owner.
\<close>

definition overview :: jsstring where
  \<open>overview = js ''{"overview":"Two days in Paris"}''\<close>

definition overviewDoc :: json where
  "overviewDoc = JObj [(js ''overview'', JStr (js ''Two days in Paris''))]"

definition handedOver :: world where
  "handedOver =
     (exampleWorld alice (Reply 200 (completionText overview)) (FetchFailed []))
       \<lparr> trips_at_write := [exampleTrip bob] \<rparr>"

lemma completion_overview:
  "JSON_parse rt (completionText overview) = Inr (completionData overview)"
  by (simp add: completionText_def jsonStringLiteral_def completionData_def overview_def json_eval)

lemma parse_overview: "parseItinerary rt overview = Inr overviewDoc"
proof -
  have e: "extractJsonCandidate overview = Inr overview"
    by (simp add: overview_def extract_eval)
  have n: "normalizeJsonText rt overview = overview"
    by (simp add: overview_def normalize_eval)
  have p: "JSON_parse rt overview = Inr overviewDoc"
    by (simp add: overview_def overviewDoc_def json_eval)
  show ?thesis by (simp add: parseItinerary_def e n p)
qed

lemma handedOver_fields:
  "completion_reply handedOver = Reply 200 (completionText overview)"
  "trips_at_write handedOver = [exampleTrip bob]"
  "update_error handedOver = None"
  by (simp_all add: handedOver_def exampleWorld_def)

lemma admit_trips_at_write: "admit rt (w\<lparr> trips_at_write := rows \<rparr>) req = admit rt w req"
  by (simp add: admit_def identify_def authorize_def selectTrip_def
      cong: option.case_cong sum.case_cong if_cong)

lemma admit_handedOver: "admit rt handedOver exampleRequest = Inr (alice, exampleInput)"
  by (simp add: handedOver_def admit_trips_at_write admit_example)

lemma serve_handedOver:
  "serve rt handedOver exampleRequest = persist handedOver alice exampleInput overviewDoc [Completion]"
proof -
  have ne: "overview \<noteq> []" by (simp add: overview_def js_def)
  have c: "callLovableAi rt (completion_reply handedOver) = Inr (completionData overview)"
    by (simp add: handedOver_fields callLovableAi_ok completion_overview)
  have f: "firstPass rt (completionData overview) = (Some (JStr overview), Inr overviewDoc)"
    by (simp add: firstPass_completionData ne parse_overview)
  have "serve rt handedOver exampleRequest = plan rt handedOver alice exampleInput"
    by (simp add: serve_def admit_handedOver exampleRequest_fields bearer_token)
  with plan_cases [OF c f, of alice exampleInput] show ?thesis by simp
qed

definition overviewUpdate :: trip_update where
  "overviewUpdate =
     \<lparr> upd_id = exampleTripId, upd_user_id = alice, upd_ai_itinerary = overviewDoc,
       upd_status = js ''planned'' \<rparr>"

lemma update_handedOver: "out_update (serve rt handedOver exampleRequest) = Some overviewUpdate"
  by (simp add: serve_handedOver persist_update exampleInput_def overviewUpdate_def)
    (simp add: itineraryError_def overviewDoc_def js_def)

lemma no_row_changed: "affectedRows overviewUpdate (trips_at_write handedOver) = 0"
  by (simp add: affectedRows_def handedOver_fields matches_def overviewUpdate_def exampleTrip_def
      alice_not_bob)

text \<open>The theorem of claim C7 in that world: no row changes, and the answer is 200.\<close>

theorem write_answer_witness:
  "out_update (serve exampleRuntime handedOver exampleRequest) = Some overviewUpdate \<and>
   update_error handedOver = None \<and>
   affectedRows overviewUpdate (trips_at_write handedOver) = 0 \<and>
   resp_status (out_response (serve exampleRuntime handedOver exampleRequest)) = 200 \<and>
   out_trips (serve exampleRuntime handedOver exampleRequest) = [exampleTrip bob]"
  using write_answer [OF update_handedOver [of exampleRuntime]] update_handedOver [of exampleRuntime]
    no_row_changed
  by (simp add: handedOver_fields applyUpdate_none)

text \<open>
  Claim C7 refuted: the write changes no row, the store reports no error, and the handler
  reports success.
\<close>

theorem zero_rows_reported_as_success:
  "affectedRows overviewUpdate (trips_at_write handedOver) = 0 \<and>
   out_update (serve exampleRuntime handedOver exampleRequest) = Some overviewUpdate \<and>
   out_response (serve exampleRuntime handedOver exampleRequest) =
     jsonResponse 200
       (JObj [(js ''success'', JBool True), (js ''itinerary'', overviewDoc),
              (js ''message'', JStr (js ''Trip planned successfully with AI!''))])"
proof -
  have "out_response (persist handedOver alice exampleInput overviewDoc [Completion]) =
      jsonResponse 200
        (JObj [(js ''success'', JBool True), (js ''itinerary'', overviewDoc),
               (js ''message'', JStr (js ''Trip planned successfully with AI!''))])"
    by (simp add: persist_def Let_def handedOver_fields)
      (simp add: itineraryError_def overviewDoc_def js_def)
  then show ?thesis
    using no_row_changed update_handedOver [of exampleRuntime]
    by (simp add: serve_handedOver)
qed

subsection \<open>A rate limit reported in a choice\<close>

text \<open>
  The gateway answers the planning request with a choice that carries an error: the
  provider's message, and metadata whose \<open>raw\<close> member is the provider's JSON, with the code
  429 and the status \<open>RESOURCE_EXHAUSTED\<close>.
\<close>

definition providerError :: jsstring where
  \<open>providerError = js ''{"error":{"code":429,"status":"RESOURCE_EXHAUSTED"}}''\<close>

definition rateLimitedText :: jsstring where
  \<open>rateLimitedText =
     js ''{"choices":[{"error":{"message":"Provider returned error","code":429,"metadata":{"raw":'' @
     jsonStringLiteral providerError @ js ''}}}]}''\<close>

definition rateLimitedData :: json where
  "rateLimitedData =
     JObj [(js ''choices'',
            JArr [JObj [(js ''error'',
                         JObj [(js ''message'', JStr (js ''Provider returned error'')),
                               (js ''code'', JNum (Finite 429)),
                               (js ''metadata'', JObj [(js ''raw'', JStr providerError)])])]])]"

definition rateLimited :: world where
  "rateLimited = exampleWorld alice (Reply 200 rateLimitedText) (FetchFailed [])"

lemma parse_rateLimitedText: "JSON_parse rt rateLimitedText = Inr rateLimitedData"
  by (simp add: rateLimitedText_def jsonStringLiteral_def providerError_def rateLimitedData_def
      json_eval)

lemma checkRateLimit_providerError:
  "checkRateLimit rt (JStr providerError) =
     Inl (Error (js ''AI service is temporarily busy. Please try again in a few minutes.''))"
proof -
  have "JSON_parse rt providerError =
      Inr (JObj [(js ''error'', JObj [(js ''code'', JNum (Finite 429)),
                                       (js ''status'', JStr (js ''RESOURCE_EXHAUSTED''))])])"
    by (simp add: providerError_def json_eval)
  then show ?thesis
    by (simp add: checkRateLimit_def getMember_def js_def)
qed

lemma firstPass_rateLimited:
  "firstPass rt rateLimitedData = (None, Inl (Error (js ''Provider returned error'')))"
  by (simp add: firstPass_def rateLimitedData_def getMember_def js_def Let_def)

text \<open>
  Whatever the metadata of a choice error says, the first pass ends with the message of the
  choice error, or with the default message when it has none, and with no raw content.
\<close>

lemma firstPass_choice_error:
  assumes "getMember data (js ''error'') = Inr dataError" and "\<not> truthyO dataError"
      and "truthyO (optProp (optIndex0 (getProp data (js ''choices''))) (js ''error''))"
  shows "firstPass rt data =
     (None, Inl (Error (toStr rt
        (orElse (optProp (optProp (optIndex0 (getProp data (js ''choices''))) (js ''error''))
                   (js ''message''))
           (JStr (js ''AI service error. Please try again.''))))))"
  using assms by (simp add: firstPass_def Let_def)

lemma provider_message: "\<not> rateLimitMessage (js ''Provider returned error'')"
  by (simp add: rateLimitMessage_def js_def startsWith_def)

text \<open>
  Claim C2 at this completion. The metadata is recognized as a rate limit, and the error
  thrown for it is caught on the spot; the error that leaves the first pass carries the
  provider's message, which says neither \<open>temporarily busy\<close> nor \<open>try again\<close>. The handler sends
  no repair request, as there is no raw content; it writes the placeholder with the status
  \<open>draft\<close> and answers 200, not 429.
\<close>

theorem rate_limit_answered_200:
  "checkRateLimit exampleRuntime (JStr providerError) =
     Inl (Error (js ''AI service is temporarily busy. Please try again in a few minutes.'')) \<and>
   callLovableAi exampleRuntime (completion_reply rateLimited) = Inr rateLimitedData \<and>
   firstPass exampleRuntime rateLimitedData =
     (None, Inl (Error (js ''Provider returned error''))) \<and>
   out_requests (serve exampleRuntime rateLimited exampleRequest) = [Completion] \<and>
   out_update (serve exampleRuntime rateLimited exampleRequest) =
     Some \<lparr> upd_id = exampleTripId, upd_user_id = alice,
            upd_ai_itinerary = JObj [(js ''error'', JStr placeholderMessage),
                                     (js ''rawContent'', JNull)],
            upd_status = js ''draft'' \<rparr> \<and>
   out_response (serve exampleRuntime rateLimited exampleRequest) =
     jsonResponse 200
       (JObj [(js ''success'', JBool False),
              (js ''itinerary'', JObj [(js ''error'', JStr placeholderMessage),
                                       (js ''rawContent'', JNull)]),
              (js ''error'', JStr placeholderMessage), (js ''retryable'', JBool True)])"
proof -
  let ?rt = exampleRuntime
  have c: "callLovableAi ?rt (completion_reply rateLimited) = Inr rateLimitedData"
    by (simp add: rateLimited_def exampleWorld_fields callLovableAi_ok parse_rateLimitedText)
  have sp: "secondPass ?rt w None = (placeholder None, [])" for w
    by (simp add: secondPass_def repairAttempt_def)
  have s: "serve ?rt rateLimited exampleRequest =
      persist rateLimited alice exampleInput (placeholder None) [Completion]"
    using plan_cases [OF c firstPass_rateLimited, of alice exampleInput] provider_message
    by (simp add: rateLimited_def serve_example sp)
  have u: "update_error rateLimited = None"
    by (simp add: rateLimited_def exampleWorld_fields)
  have p: "placeholder None = JObj [(js ''error'', JStr placeholderMessage), (js ''rawContent'', JNull)]"
    by (simp add: placeholder_def)
  have r: "out_response (persist rateLimited alice exampleInput (placeholder None) [Completion]) =
      jsonResponse 200
        (JObj [(js ''success'', JBool False), (js ''itinerary'', placeholder None),
               (js ''error'', JStr placeholderMessage), (js ''retryable'', JBool True)])"
    using u by (simp add: persist_def Let_def placeholder_error placeholderMessage_def js_def)
  have q: "out_requests (persist rateLimited alice exampleInput (placeholder None) [Completion]) =
      [Completion]"
    by (simp add: persist_def Let_def split: option.splits)
  have ne: "placeholderMessage \<noteq> []"
    by (simp add: placeholderMessage_def js_def)
  show ?thesis
    using c checkRateLimit_providerError [of ?rt] firstPass_rateLimited [of ?rt] r q
    by (simp add: s persist_update placeholder_error ne exampleInput_def flip: p)
qed

subsection \<open>Texts that the rewrites leave alone\<close>

text \<open>A comma that \<open>/,\s*([}\]])/\<close> matches: spaces and a closing brace or bracket follow it.\<close>

fun hasTrailingComma :: "jsstring \<Rightarrow> bool" where
  "hasTrailingComma [] = False"
| "hasTrailingComma (c # cs) =
     ((c = 0x2C \<and> (case dropWhile isSpace cs of [] \<Rightarrow> False | d # rest \<Rightarrow> isCloser d)) \<or>
      hasTrailingComma cs)"

lemma hasTrailingComma_iff:
  "hasTrailingComma s \<longleftrightarrow> (\<exists>p w c r. s = p @ 0x2C # w @ c # r \<and> spaces w \<and> isCloser c)"
proof
  show "hasTrailingComma s \<Longrightarrow> \<exists>p w c r. s = p @ 0x2C # w @ c # r \<and> spaces w \<and> isCloser c"
  proof (induction s)
    case Nil
    then show ?case by simp
  next
    case (Cons x xs)
    show ?case
    proof (cases "hasTrailingComma xs")
      case True
      with Cons.IH obtain p w c r where "xs = p @ 0x2C # w @ c # r \<and> spaces w \<and> isCloser c"
        by blast
      then have "x # xs = (x # p) @ 0x2C # w @ c # r \<and> spaces w \<and> isCloser c" by simp
      then show ?thesis by blast
    next
      case False
      with Cons.prems obtain d rest where x: "x = 0x2C"
        and d: "dropWhile isSpace xs = d # rest" "isCloser d"
        by (auto split: list.splits)
      obtain w where w: "spaces w" "xs = w @ dropWhile isSpace xs"
        using spaces_split by blast
      have "x # xs = [] @ 0x2C # w @ d # rest" using x w(2) d(1) by simp
      then show ?thesis using w(1) d(2) by blast
    qed
  qed
next
  assume "\<exists>p w c r. s = p @ 0x2C # w @ c # r \<and> spaces w \<and> isCloser c"
  then obtain p w c r where s: "s = p @ 0x2C # w @ c # r" and w: "spaces w" and c: "isCloser c"
    by blast
  have "\<not> isSpace c" using c by (auto simp: isCloser_def isSpace_def)
  then have "dropWhile isSpace (w @ c # r) = c # r"
    using w by (simp add: dropWhile_spaces)
  then have "hasTrailingComma (0x2C # w @ c # r)" using c by simp
  then show "hasTrailingComma s" unfolding s by (induction p) simp_all
qed







subsection \<open>Two numbers in a row\<close>







subsection \<open>The lexer on a text without its control characters\<close>

text \<open>
  In a text that the lexer accepts, a control character other than \<open>DEL\<close> stands between
  tokens: it is a tab, a line feed or a carriage return. Taking the control characters out
  moves tokens together and changes no token, as long as no string holds a \<open>DEL\<close>, and it
  yields the same tokens unless two numbers come together.
\<close>

lemma replaceClass_append: "replaceClass cls (xs @ ys) = replaceClass cls xs @ replaceClass cls ys"
  by (simp add: replaceClass_filter)

lemma replaceClass_keep: "list_all (\<lambda>x. \<not> cls x) xs \<Longrightarrow> replaceClass cls xs = xs"
  by (induction xs) auto

lemma hex4_append:
  assumes "hex4 cs = Some (u, r)"
  shows "\<exists>h. cs = h @ r \<and> list_all isHex h \<and> (\<forall>t. hex4 (h @ t) = Some (u, t))"
proof -
  from assms have l: "length cs \<ge> 4" and h: "list_all isHex (take 4 cs)"
    and u: "u = foldl (\<lambda>acc c. 16 * acc + hexValue c) 0 (take 4 cs)" and r: "r = drop 4 cs"
    by (auto simp: hex4_def split: if_splits)
  have "hex4 (take 4 cs @ t) = Some (u, t)" for t
    using l h u by (simp add: hex4_def)
  moreover have "cs = take 4 cs @ r" by (simp add: r)
  ultimately show ?thesis using h by blast
qed

lemma isHex_printable: "isHex c \<Longrightarrow> 0x20 \<le> c \<and> c \<noteq> 0x7F"
  by (auto simp: isHex_def isDigit_def)

lemma unescape_printable: "unescape e = Some u \<Longrightarrow> 0x20 \<le> e \<and> e \<noteq> 0x7F"
  by (auto simp: unescape_def split: if_splits)

text \<open>
  One step of \<open>lexString\<close>: the closing quote, or a character or an escape \<open>q\<close> that gives the
  code unit \<open>u\<close>, whatever follows it.
\<close>

lemma lexString_unfold:
  assumes "lexString (c # cs) = Some (str, r)"
  shows "(c = 0x22 \<and> str = [] \<and> r = cs) \<or>
         (\<exists>q cs2 u str2. c # cs = q @ cs2 \<and> q \<noteq> [] \<and> list_all (\<lambda>x. 0x20 \<le> x) q \<and>
            (0x7F \<notin> set (c # cs) \<longrightarrow> 0x7F \<notin> set q) \<and>
            lexString cs2 = Some (str2, r) \<and> str = u # str2 \<and>
            (\<forall>t str3 r3. lexString t = Some (str3, r3) \<longrightarrow> lexString (q @ t) = Some (u # str3, r3)))"
proof (cases "c = 0x22")
  case True
  with assms show ?thesis by simp
next
  case quote: False
  show ?thesis
  proof (cases "c = 0x5C")
    case False
    with quote assms obtain str2 where l: "lexString cs = Some (str2, r)" "str = c # str2"
      and c: "\<not> c < 0x20"
      by (auto split: if_splits)
    have "\<forall>t str3 r3. lexString t = Some (str3, r3) \<longrightarrow> lexString ([c] @ t) = Some (c # str3, r3)"
      using quote False c by simp
    moreover have "c # cs = [c] @ cs" "[c] \<noteq> []" "list_all (\<lambda>x. 0x20 \<le> x) [c]"
      "0x7F \<notin> set (c # cs) \<longrightarrow> 0x7F \<notin> set [c]"
      using c by auto
    ultimately show ?thesis using l by blast
  next
    case bs: True
    with quote assms obtain e cs' where cs: "cs = e # cs'"
      by (cases cs) auto
    show ?thesis
    proof (cases "e = 0x75")
      case True
      with quote bs cs assms obtain v cs'' str2 where
        h: "hex4 cs' = Some (v, cs'')" and l: "lexString cs'' = Some (str2, r)" "str = v # str2"
        by (auto split: option.splits)
      from hex4_append [OF h] obtain hx where hx: "cs' = hx @ cs''" "list_all isHex hx"
        "\<forall>t. hex4 (hx @ t) = Some (v, t)" by blast
      let ?q = "c # e # hx"
      have p: "list_all (\<lambda>x. 0x20 \<le> x \<and> x \<noteq> 0x7F) hx"
        using hx(2) isHex_printable by (simp add: list_all_iff)
      have "\<forall>t str3 r3. lexString t = Some (str3, r3) \<longrightarrow> lexString (?q @ t) = Some (v # str3, r3)"
        using bs True hx(3) by simp
      moreover have "c # cs = ?q @ cs''" by (simp add: cs hx(1))
      moreover have "list_all (\<lambda>x. 0x20 \<le> x) ?q" "0x7F \<notin> set ?q"
        using p bs True by (auto simp: list_all_iff)
      ultimately show ?thesis using l by blast
    next
      case False
      with quote bs cs assms obtain v str2 where
        h: "unescape e = Some v" and l: "lexString cs' = Some (str2, r)" "str = v # str2"
        by (auto split: option.splits)
      let ?q = "[c, e]"
      have "\<forall>t str3 r3. lexString t = Some (str3, r3) \<longrightarrow> lexString (?q @ t) = Some (v # str3, r3)"
        using bs False h by simp
      moreover have "c # cs = ?q @ cs'" by (simp add: cs)
      moreover have "list_all (\<lambda>x. 0x20 \<le> x) ?q" "0x7F \<notin> set ?q"
        using unescape_printable [OF h] bs by auto
      ultimately show ?thesis using l by blast
    qed
  qed
qed

lemma lexString_prefix:
  "lexString cs = Some (str, r) \<Longrightarrow>
   \<exists>p. cs = p @ r \<and> list_all (\<lambda>x. 0x20 \<le> x) p \<and> (0x7F \<notin> set cs \<longrightarrow> 0x7F \<notin> set p) \<and>
       (\<forall>t. lexString (p @ t) = Some (str, t))"
proof (induction "length cs" arbitrary: cs str rule: less_induct)
  case less
  show ?case
  proof (cases cs)
    case Nil
    with less.prems show ?thesis by simp
  next
    case (Cons c cs1)
    from lexString_unfold [OF less.prems [unfolded Cons]] show ?thesis
    proof
      assume "c = 0x22 \<and> str = [] \<and> r = cs1"
      then have "cs = [c] @ r" "list_all (\<lambda>x. 0x20 \<le> x) [c]" "0x7F \<notin> set [c]"
        "\<forall>t. lexString ([c] @ t) = Some (str, t)"
        by (simp_all add: Cons)
      then show ?thesis by blast
    next
      assume "\<exists>q cs2 u str2. c # cs1 = q @ cs2 \<and> q \<noteq> [] \<and> list_all (\<lambda>x. 0x20 \<le> x) q \<and>
          (0x7F \<notin> set (c # cs1) \<longrightarrow> 0x7F \<notin> set q) \<and>
          lexString cs2 = Some (str2, r) \<and> str = u # str2 \<and>
          (\<forall>t str3 r3. lexString t = Some (str3, r3) \<longrightarrow> lexString (q @ t) = Some (u # str3, r3))"
      then obtain q cs2 u str2 where q: "c # cs1 = q @ cs2" "q \<noteq> []" "list_all (\<lambda>x. 0x20 \<le> x) q"
        "0x7F \<notin> set (c # cs1) \<longrightarrow> 0x7F \<notin> set q"
        and l: "lexString cs2 = Some (str2, r)" and str: "str = u # str2"
        and k: "\<forall>t str3 r3. lexString t = Some (str3, r3) \<longrightarrow> lexString (q @ t) = Some (u # str3, r3)"
        by blast
      have "length cs2 < length cs"
        using q(1,2) by (metis Cons length_append length_greater_0_conv less_add_same_cancel2)
      from less.hyps [OF this l] obtain p where p: "cs2 = p @ r" "list_all (\<lambda>x. 0x20 \<le> x) p"
        "0x7F \<notin> set cs2 \<longrightarrow> 0x7F \<notin> set p" "\<forall>t. lexString (p @ t) = Some (str2, t)"
        by blast
      have "cs = (q @ p) @ r" using q(1) p(1) by (simp add: Cons)
      moreover have "list_all (\<lambda>x. 0x20 \<le> x) (q @ p)" using q(3) p(2) by simp
      moreover have "0x7F \<notin> set cs \<longrightarrow> 0x7F \<notin> set (q @ p)"
        using q(1,4) p(3) Cons by auto
      moreover have "\<forall>t. lexString ((q @ p) @ t) = Some (str, t)"
        using k p(4) str by simp
      ultimately show ?thesis by blast
    qed
  qed
qed

lemma isControl_iff: "isControl c \<longleftrightarrow> c < 0x20 \<or> c = 0x7F"
  by (auto simp: isControl_def)

lemma lexString_controls:
  assumes "lexString cs = Some (str, r)" and "0x7F \<notin> set cs"
  shows "lexString (replaceClass isControl cs) = Some (str, replaceClass isControl r)"
proof -
  from lexString_prefix [OF assms(1)] assms(2) obtain p where p: "cs = p @ r"
    "list_all (\<lambda>x. 0x20 \<le> x) p" "0x7F \<notin> set p" "\<forall>t. lexString (p @ t) = Some (str, t)"
    by blast
  have "list_all (\<lambda>x. \<not> isControl x) p"
    using p(2,3) by (auto simp: list_all_iff isControl_iff)
  then have "replaceClass isControl cs = p @ replaceClass isControl r"
    by (simp add: p(1) replaceClass_append replaceClass_keep)
  then show ?thesis using p(4) by simp
qed







subsection \<open>The value of a text after the normalizer\<close>













end
